theory Spec2Isabelle
  imports Complex_Main "HOL-Library.Word"
begin

section \<open>The controller session layer of gomaasapi (controller.go)\<close>

text \<open>
  The development embeds \<^verbatim>\<open>controller.go\<close>: version negotiation
  (\<^verbatim>\<open>NewController\<close>), the request primitives, the per-call translation of
  transport failures into typed errors, and the validation of file uploads.

  Go's \<^verbatim>\<open>error\<close> results are values of the datatype \<open>error\<close>; a function that
  returns \<^verbatim>\<open>(T, error)\<close> returns \<open>error + T\<close> and one that returns only
  \<^verbatim>\<open>error\<close> returns \<open>error option\<close> (\<open>None\<close> is \<^verbatim>\<open>nil\<close>). The package-level
  request counter and the sequence of calls handed to the transport are threaded
  through a \<open>state\<close> record. Calls to \<^verbatim>\<open>logger\<close> have no effect on any result and
  are left out, except that the request identifier they print is kept beside each
  transport call in the state.
\<close>

subsection \<open>Errors (github.com/juju/errors and errors.go)\<close>

datatype Kind =
    NotValid
  | PermissionDenied
  | NoMatch
  | BadRequest
  | CannotComplete
  | UnsupportedVersion
  | Unexpected
  | Deserialization

text \<open>
  \<open>ServerError msg code body\<close> is the transport's \<^verbatim>\<open>ServerError\<close> value (its
  embedded error text, \<^verbatim>\<open>StatusCode\<close> and \<^verbatim>\<open>BodyMessage\<close>; the header map is never
  read by the controller). \<open>OtherError\<close> is any other base error: a network failure,
  a JSON syntax error, a schema error, \<^verbatim>\<open>errors.Errorf\<close>. \<open>KindError\<close> is one of the
  typed errors. \<open>Wrap other new\<close>, \<open>Trace other\<close> and \<open>Annotate other msg\<close> are the
  results of \<^verbatim>\<open>errors.Wrap\<close>, \<^verbatim>\<open>errors.Trace\<close> and \<^verbatim>\<open>errors.Annotatef\<close>.
\<close>

datatype error =
    ServerError string int string
  | OtherError string
  | KindError Kind string
  | Wrap error error
  | Trace error
  | Annotate error string

text \<open>
  \<^verbatim>\<open>errors.Cause\<close>: \<^verbatim>\<open>Wrap\<close> stores the new error as the cause, \<^verbatim>\<open>Trace\<close> and
  \<^verbatim>\<open>Annotatef\<close> store the cause of the error they decorate, every other error is its
  own cause.
\<close>

fun Cause :: "error \<Rightarrow> error" where
  "Cause (Wrap other new) = new"
| "Cause (Trace other) = Cause other"
| "Cause (Annotate other msg) = Cause other"
| "Cause (ServerError msg code body) = ServerError msg code body"
| "Cause (OtherError msg) = OtherError msg"
| "Cause (KindError k msg) = KindError k msg"

text \<open>The text of \<^verbatim>\<open>err.Error()\<close>.\<close>

fun Error :: "error \<Rightarrow> string" where
  "Error (ServerError msg code body) = msg"
| "Error (OtherError msg) = msg"
| "Error (KindError k msg) = msg"
| "Error (Wrap other new) = Error new"
| "Error (Trace other) = Error other"
| "Error (Annotate other msg) = msg @ '': '' @ Error other"

text \<open>
  The Kind of an error is the type of its cause, as the predicates
  \<^verbatim>\<open>IsBadRequestError\<close>, \<^verbatim>\<open>IsNoMatchError\<close>, \<^verbatim>\<open>errors.IsNotValid\<close>, ... test it.
  An error whose cause is a \<^verbatim>\<open>ServerError\<close> or another base error has no Kind: it is
  a raw, unclassified error.
\<close>

definition kindOf :: "error \<Rightarrow> Kind option" where
  "kindOf e = (case Cause e of KindError k msg \<Rightarrow> Some k | _ \<Rightarrow> None)"

definition IsNotValid :: "error \<Rightarrow> bool" where
  "IsNotValid e = (kindOf e = Some NotValid)"

text \<open>\<^verbatim>\<open>errors.NotValidf\<close> appends \<^verbatim>\<open>" not valid"\<close> to the formatted message.\<close>

definition NotValidf :: "string \<Rightarrow> error" where
  "NotValidf msg = KindError NotValid (msg @ '' not valid'')"

text \<open>
  Modelled from the spec: \<^verbatim>\<open>errors.go\<close> of the repository, which declares the typed
  errors and their constructors, is not among the sources. Each constructor builds a
  typed error of the Kind its name says, carrying the message;
  \<^verbatim>\<open>NewUnexpectedError\<close> and \<^verbatim>\<open>WrapWithDeserializationError\<close> take the underlying
  error and wrap it, so that it is not discarded.
\<close>

definition NewBadRequestError :: "string \<Rightarrow> error" where
  "NewBadRequestError msg = KindError BadRequest msg"

definition NewPermissionError :: "string \<Rightarrow> error" where
  "NewPermissionError msg = KindError PermissionDenied msg"

definition NewCannotCompleteError :: "string \<Rightarrow> error" where
  "NewCannotCompleteError msg = KindError CannotComplete msg"

definition NewNoMatchError :: "string \<Rightarrow> error" where
  "NewNoMatchError msg = KindError NoMatch msg"

definition NewUnsupportedVersionError :: "string \<Rightarrow> error" where
  "NewUnsupportedVersionError msg = KindError UnsupportedVersion msg"

definition NewUnexpectedError :: "error \<Rightarrow> error" where
  "NewUnexpectedError err = Wrap err (KindError Unexpected (''unexpected: '' @ Error err))"

definition WrapWithDeserializationError :: "error \<Rightarrow> string \<Rightarrow> error" where
  "WrapWithDeserializationError err msg =
     Wrap err (KindError Deserialization (msg @ '': '' @ Error (Cause err)))"

text \<open>The error a function returning \<^verbatim>\<open>(T, error)\<close> hands back, if any.\<close>

definition errOf :: "error + 'a \<Rightarrow> error option" where
  "errOf r = (case r of Inl e \<Rightarrow> Some e | Inr v \<Rightarrow> None)"

text \<open>
  The status code a call site reads with
  \<^verbatim>\<open>svrErr, ok := errors.Cause(err).(ServerError)\<close>: none when the cause is not a
  \<^verbatim>\<open>ServerError\<close>.
\<close>

definition statusOf :: "error \<Rightarrow> int option" where
  "statusOf err = (case Cause err of ServerError msg code body \<Rightarrow> Some code | _ \<Rightarrow> None)"

subsection \<open>Decoded JSON values and schema coercion (encoding/json, github.com/juju/schema)\<close>

text \<open>
  \<^verbatim>\<open>json.Unmarshal\<close> into an \<^verbatim>\<open>interface{}\<close> yields \<^verbatim>\<open>nil\<close>, a bool, a float64, a
  string, a \<^verbatim>\<open>[]interface{}\<close> or a \<^verbatim>\<open>map[string]interface{}\<close>. The map is kept as an
  association list read with \<open>map_of\<close>; the number (never inspected here) as a real.
\<close>

datatype json =
    JNull
  | JBool bool
  | JNumber real
  | JString string
  | JArray "json list"
  | JObject "(string \<times> json) list"

text \<open>
  Modelled from the spec: the three checkers \<^verbatim>\<open>readAPIVersion\<close> uses belong to
  the schema library, which is not among the sources. A checker validates a decoded
  value against a declared shape and returns the coerced value, with the declared
  fields present and correctly typed, or an error (whose text is abridged here: the
  library also prints the path and the offending value). No default is injected for
  a declared field that is absent: absence is a failure.
  \<^verbatim>\<open>schema.String()\<close> accepts a string only; \<^verbatim>\<open>schema.List(elem)\<close> accepts a slice
  whose every element \<^verbatim>\<open>elem\<close> accepts, stopping at the first that it refuses;
  \<^verbatim>\<open>schema.FieldMap(fields, nil)\<close> accepts a map and coerces, for each declared
  field, the value stored under that key, or \<^verbatim>\<open>nil\<close> when the key is absent (there
  are no defaults), failing when a field's checker fails.
\<close>

definition schema_String :: "json \<Rightarrow> error + string" where
  "schema_String v =
     (case v of JString s \<Rightarrow> Inr s | _ \<Rightarrow> Inl (OtherError ''expected string''))"

fun coerceElems :: "(json \<Rightarrow> error + 'a) \<Rightarrow> json list \<Rightarrow> error + 'a list" where
  "coerceElems elem [] = Inr []"
| "coerceElems elem (x # xs) =
     (case elem x of
        Inl e \<Rightarrow> Inl e
      | Inr y \<Rightarrow> (case coerceElems elem xs of Inl e \<Rightarrow> Inl e | Inr ys \<Rightarrow> Inr (y # ys)))"

definition schema_List :: "(json \<Rightarrow> error + 'a) \<Rightarrow> json \<Rightarrow> error + 'a list" where
  "schema_List elem v =
     (case v of JArray xs \<Rightarrow> coerceElems elem xs | _ \<Rightarrow> Inl (OtherError ''expected list''))"

fun coerceFields ::
  "(string \<times> (json \<Rightarrow> error + 'a)) list \<Rightarrow> (string \<times> json) list \<Rightarrow> error + (string \<times> 'a) list"
where
  "coerceFields [] kvs = Inr []"
| "coerceFields ((k, checker) # fields) kvs =
     (case checker (case map_of kvs k of Some v \<Rightarrow> v | None \<Rightarrow> JNull) of
        Inl e \<Rightarrow> Inl e
      | Inr w \<Rightarrow>
          (case coerceFields fields kvs of Inl e \<Rightarrow> Inl e | Inr out \<Rightarrow> Inr ((k, w) # out)))"

definition schema_FieldMap ::
  "(string \<times> (json \<Rightarrow> error + 'a)) list \<Rightarrow> json \<Rightarrow> error + (string \<times> 'a) list"
where
  "schema_FieldMap fields v =
     (case v of JObject kvs \<Rightarrow> coerceFields fields kvs | _ \<Rightarrow> Inl (OtherError ''expected map''))"

text \<open>The value a decoded document stores under a key, if it is a map and has the key.\<close>

definition field :: "json \<Rightarrow> string \<Rightarrow> json option" where
  "field v k = (case v of JObject kvs \<Rightarrow> map_of kvs k | _ \<Rightarrow> None)"

definition isString :: "json \<Rightarrow> bool" where
  "isString v = (case v of JString s \<Rightarrow> True | _ \<Rightarrow> False)"

subsection \<open>Version numbers (github.com/juju/version)\<close>

record Number =
  Major :: int
  Minor :: int
  Tag :: string
  Patch :: int
  Build :: int

text \<open>\<^verbatim>\<open>strings.Split(s, ".")\<close>: the pieces between the separators, at least one.\<close>

fun splitOn :: "char \<Rightarrow> string \<Rightarrow> string list" where
  "splitOn c [] = [[]]"
| "splitOn c (x # xs) =
     (if x = c then [] # splitOn c xs
      else (case splitOn c xs of p # ps \<Rightarrow> (x # p) # ps | [] \<Rightarrow> [[x]]))"

definition digitVal :: "char \<Rightarrow> nat option" where
  "digitVal c =
     (let n = (of_char c :: nat) in if 48 \<le> n \<and> n \<le> 57 then Some (n - 48) else None)"

fun parseDigits :: "nat \<Rightarrow> string \<Rightarrow> nat option" where
  "parseDigits acc [] = Some acc"
| "parseDigits acc (c # cs) =
     (case digitVal c of None \<Rightarrow> None | Some d \<Rightarrow> parseDigits (acc * 10 + d) cs)"

text \<open>
  \<^verbatim>\<open>strconv.Atoi\<close>: an optional sign, then at least one decimal digit; a value
  outside the 64-bit range of \<^verbatim>\<open>int\<close> is an error.
\<close>

definition Atoi :: "string \<Rightarrow> int option" where
  "Atoi s =
     (let (neg, ds) =
            (case s of
               [] \<Rightarrow> (False, [])
             | c # cs \<Rightarrow>
                 if c = CHR ''-'' then (True, cs)
                 else if c = CHR ''+'' then (False, cs) else (False, s))
      in if ds = [] then None
         else (case parseDigits 0 ds of
                 None \<Rightarrow> None
               | Some n \<Rightarrow>
                   let v = (if neg then - int n else int n)
                   in if - (2 ^ 63) \<le> v \<and> v < 2 ^ 63 then Some v else None))"

text \<open>
  \<^verbatim>\<open>version.ParseMajorMinor\<close>: at most two dot-separated parts; the minor number
  is \<open>-1\<close> when there is one part only.
\<close>

definition ParseMajorMinor :: "string \<Rightarrow> error + (int \<times> int)" where
  "ParseMajorMinor vers =
     (let parts = splitOn CHR ''.'' vers in
      if length parts > 2 then Inl (OtherError (''invalid major.minor version number '' @ vers))
      else
        (case Atoi (hd parts) of
           None \<Rightarrow> Inl (OtherError (''invalid major version number '' @ hd parts))
         | Some major \<Rightarrow>
             if length parts = 2 then
               (case Atoi (parts ! 1) of
                  None \<Rightarrow> Inl (OtherError (''invalid minor version number '' @ parts ! 1))
                | Some minor \<Rightarrow> Inr (major, minor))
             else Inr (major, - 1)))"

subsection \<open>The transport and the state\<close>

type_synonym bytes = string

text \<open>
  \<^verbatim>\<open>url.Values\<close> is a \<^verbatim>\<open>map[string][]string\<close> and the file attachments are a
  \<^verbatim>\<open>map[string][]byte\<close>; a \<^verbatim>\<open>nil\<close> map reads as the empty map.
\<close>

type_synonym Values = "string \<rightharpoonup> string list"

type_synonym Files = "string \<rightharpoonup> bytes"

definition Values_Add :: "Values \<Rightarrow> string \<Rightarrow> string \<Rightarrow> Values" where
  "Values_Add vs k x = vs(k \<mapsto> (case vs k of None \<Rightarrow> [x] | Some xs \<Rightarrow> xs @ [x]))"

text \<open>
  Modelled from the spec: \<^verbatim>\<open>client.go\<close> (the \<^verbatim>\<open>Client\<close> type, its constructor
  \<^verbatim>\<open>NewAuthenticatedClient\<close> and its methods \<^verbatim>\<open>Get\<close>, \<^verbatim>\<open>Post\<close>, \<^verbatim>\<open>Delete\<close>) is not
  among the sources. A client is bound to the base URL, the API key and the version it
  was built for. The transport is a parameter: what it answers may depend on the calls
  made before and on the request. Building a client either fails with an error
  (\<open>clientCheck\<close>) or yields the client.
\<close>

record Client =
  clientBaseURL :: string
  clientAPIKey :: string
  clientVersion :: string

datatype call =
    GetCall Client string string Values
  | PostCall Client string string Values Files
  | DeleteCall Client string

record env =
  clientCheck :: "string \<Rightarrow> string \<Rightarrow> string \<Rightarrow> error option"
  Get :: "call list \<Rightarrow> Client \<Rightarrow> string \<Rightarrow> string \<Rightarrow> Values \<Rightarrow> error + bytes"
  Post :: "call list \<Rightarrow> Client \<Rightarrow> string \<Rightarrow> string \<Rightarrow> Values \<Rightarrow> Files \<Rightarrow> error + bytes"
  Delete :: "call list \<Rightarrow> Client \<Rightarrow> string \<Rightarrow> error option"
  Unmarshal :: "bytes \<Rightarrow> error + json"

definition NewAuthenticatedClient :: "env \<Rightarrow> string \<Rightarrow> string \<Rightarrow> string \<Rightarrow> error + Client" where
  "NewAuthenticatedClient E baseURL apiKey apiVersion =
     (case clientCheck E baseURL apiKey apiVersion of
        Some err \<Rightarrow> Inl err
      | None \<Rightarrow>
          Inr \<lparr>clientBaseURL = baseURL, clientAPIKey = apiKey, clientVersion = apiVersion\<rparr>)"

text \<open>
  The state: the package-level \<^verbatim>\<open>requestNumber\<close> (an \<^verbatim>\<open>int64\<close>) and, in order, the
  calls handed to the transport, each with the request identifier logged for it.
\<close>

record state =
  requestNumber :: "64 word"
  wire :: "(64 word \<times> call) list"

definition history :: "state \<Rightarrow> call list" where
  "history s = map snd (wire s)"

definition issued :: "state \<Rightarrow> 64 word list" where
  "issued s = map fst (wire s)"

text \<open>
  \<^verbatim>\<open>nextRequestID\<close>: \<^verbatim>\<open>atomic.AddInt64(&requestNumber, 1)\<close> adds one (wrapping
  around in 64 bits) and returns the new value, as one indivisible step.
\<close>

definition nextRequestID :: "state \<Rightarrow> 64 word \<times> state" where
  "nextRequestID s = (requestNumber s + 1, s\<lparr>requestNumber := requestNumber s + 1\<rparr>)"

text \<open>
  Modelled from the spec: \<^verbatim>\<open>EnsureTrailingSlash\<close> (\<^verbatim>\<open>util.go\<close>, not among the
  sources) normalises the resource path so that it ends with the separator.
\<close>

definition EnsureTrailingSlash :: "string \<Rightarrow> string" where
  "EnsureTrailingSlash p = (if p \<noteq> [] \<and> last p = CHR ''/'' then p else p @ ''/'')"

record controller =
  client :: Client
  apiVersion :: Number
  capabilities :: "string set"

subsection \<open>Request primitives\<close>

text \<open>
  The source's \<^verbatim>\<open>_getRaw\<close>, \<^verbatim>\<open>_get\<close> and \<^verbatim>\<open>_postRaw\<close> are \<open>u_getRaw\<close>, \<open>u_get\<close> and
  \<open>u_postRaw\<close> here (a name cannot start with an underscore).
\<close>

definition u_getRaw ::
  "env \<Rightarrow> controller \<Rightarrow> string \<Rightarrow> string \<Rightarrow> Values \<Rightarrow> state \<Rightarrow> (error + bytes) \<times> state"
where
  "u_getRaw E c path oper params s =
     (let path' = EnsureTrailingSlash path;
          (requestID, s1) = nextRequestID s;
          r = Get E (history s1) (client c) path' oper params;
          s2 = s1\<lparr>wire := wire s1 @ [(requestID, GetCall (client c) path' oper params)]\<rparr>
      in case r of
           Inl err \<Rightarrow> (Inl (Trace err), s2)
         | Inr bs \<Rightarrow> (Inr bs, s2))"

definition u_get ::
  "env \<Rightarrow> controller \<Rightarrow> string \<Rightarrow> string \<Rightarrow> Values \<Rightarrow> state \<Rightarrow> (error + json) \<times> state"
where
  "u_get E c path oper params s =
     (case u_getRaw E c path oper params s of
        (Inl err, s') \<Rightarrow> (Inl (Trace err), s')
      | (Inr bs, s') \<Rightarrow>
          (case Unmarshal E bs of
             Inl err \<Rightarrow> (Inl (Trace err), s')
           | Inr parsed \<Rightarrow> (Inr parsed, s')))"

definition getQuery ::
  "env \<Rightarrow> controller \<Rightarrow> string \<Rightarrow> Values \<Rightarrow> state \<Rightarrow> (error + json) \<times> state"
where
  "getQuery E c path params s = u_get E c path [] params s"

definition get :: "env \<Rightarrow> controller \<Rightarrow> string \<Rightarrow> state \<Rightarrow> (error + json) \<times> state" where
  "get E c path s = u_get E c path [] Map.empty s"

definition getOp ::
  "env \<Rightarrow> controller \<Rightarrow> string \<Rightarrow> string \<Rightarrow> state \<Rightarrow> (error + json) \<times> state"
where
  "getOp E c path oper s = u_get E c path oper Map.empty s"

definition u_postRaw ::
  "env \<Rightarrow> controller \<Rightarrow> string \<Rightarrow> string \<Rightarrow> Values \<Rightarrow> Files \<Rightarrow> state \<Rightarrow> (error + bytes) \<times> state"
where
  "u_postRaw E c path oper params files s =
     (let path' = EnsureTrailingSlash path;
          (requestID, s1) = nextRequestID s;
          r = Post E (history s1) (client c) path' oper params files;
          s2 = s1\<lparr>wire := wire s1 @ [(requestID, PostCall (client c) path' oper params files)]\<rparr>
      in case r of
           Inl err \<Rightarrow> (Inl (Trace err), s2)
         | Inr bs \<Rightarrow> (Inr bs, s2))"

definition post ::
  "env \<Rightarrow> controller \<Rightarrow> string \<Rightarrow> string \<Rightarrow> Values \<Rightarrow> state \<Rightarrow> (error + json) \<times> state"
where
  "post E c path oper params s =
     (case u_postRaw E c path oper params Map.empty s of
        (Inl err, s') \<Rightarrow> (Inl (Trace err), s')
      | (Inr bs, s') \<Rightarrow>
          (case Unmarshal E bs of
             Inl err \<Rightarrow> (Inl (Trace err), s')
           | Inr parsed \<Rightarrow> (Inr parsed, s')))"

text \<open>Only one file is ever sent at a time; the response bytes are not decoded.\<close>

definition postFile ::
  "env \<Rightarrow> controller \<Rightarrow> string \<Rightarrow> string \<Rightarrow> Values \<Rightarrow> bytes \<Rightarrow> state \<Rightarrow> (error + bytes) \<times> state"
where
  "postFile E c path oper params fileContent s =
     u_postRaw E c path oper params [''file'' \<mapsto> fileContent] s"

definition delete :: "env \<Rightarrow> controller \<Rightarrow> string \<Rightarrow> state \<Rightarrow> error option \<times> state" where
  "delete E c path s =
     (let path' = EnsureTrailingSlash path;
          (requestID, s1) = nextRequestID s;
          r = Delete E (history s1) (client c) path';
          s2 = s1\<lparr>wire := wire s1 @ [(requestID, DeleteCall (client c) path')]\<rparr>
      in case r of
           Some err \<Rightarrow> (Some (Trace err), s2)
         | None \<Rightarrow> (None, s2))"

subsection \<open>Reading the version document\<close>

text \<open>
  The two type assertions after the coercion cannot fail; the branch that would be a
  panic is kept as an error so that it can be shown unreachable.
\<close>

definition readAPIVersion ::
  "env \<Rightarrow> controller \<Rightarrow> Number \<Rightarrow> state \<Rightarrow> (error + (string set \<times> Number)) \<times> state"
where
  "readAPIVersion E c apiVer s =
     (case get E c ''version'' s of
        (Inl err, s') \<Rightarrow> (Inl (Trace err), s')
      | (Inr parsed, s') \<Rightarrow>
          (case schema_FieldMap [(''capabilities'', schema_List schema_String)] parsed of
             Inl err \<Rightarrow> (Inl (WrapWithDeserializationError err ''version response''), s')
           | Inr valid \<Rightarrow>
               (case map_of valid ''capabilities'' of
                  None \<Rightarrow> (Inl (OtherError ''panic: interface conversion''), s')
                | Some capabilityValues \<Rightarrow>
                    (Inr (foldl (\<lambda>caps v. insert v caps) {} capabilityValues, apiVer), s'))))"

definition checkCreds :: "env \<Rightarrow> controller \<Rightarrow> state \<Rightarrow> error option \<times> state" where
  "checkCreds E c s =
     (case getOp E c ''users'' ''whoami'' s of
        (Inl err, s') \<Rightarrow>
          (case Cause err of
             ServerError msg code body \<Rightarrow>
               if code = 401 then (Some (Wrap err (NewPermissionError body)), s')
               else (Some (NewUnexpectedError err), s')
           | _ \<Rightarrow> (Some (NewUnexpectedError err), s'))
      | (Inr v, s') \<Rightarrow> (None, s'))"

subsection \<open>Version negotiation\<close>

record ControllerArgs =
  BaseURL :: string
  APIKey :: string

definition supportedAPIVersions :: "string list" where
  "supportedAPIVersions = [''2.0'']"

text \<open>The text of a string slice under \<^verbatim>\<open>%s\<close> and of a string under \<^verbatim>\<open>%q\<close> (escapes left out).\<close>

fun joinWith :: "string \<Rightarrow> string list \<Rightarrow> string" where
  "joinWith sep [] = []"
| "joinWith sep [x] = x"
| "joinWith sep (x # y # ys) = x @ sep @ joinWith sep (y # ys)"

definition showStrings :: "string list \<Rightarrow> string" where
  "showStrings xs = ''['' @ joinWith '' '' xs @ '']''"

definition quoted :: "string \<Rightarrow> string" where
  "quoted x = [CHR 0x22] @ x @ [CHR 0x22]"

text \<open>
  \<^verbatim>\<open>version.Number{Major: major, Minor: minor}\<close> and \<^verbatim>\<open>&controller{client: client}\<close>:
  the fields not named have their zero values.
\<close>

definition majorMinor :: "int \<Rightarrow> int \<Rightarrow> Number" where
  "majorMinor major minor = \<lparr>Major = major, Minor = minor, Tag = [], Patch = 0, Build = 0\<rparr>"

definition bareController :: "Client \<Rightarrow> controller" where
  "bareController cl = \<lparr>client = cl, apiVersion = majorMinor 0 0, capabilities = {}\<rparr>"

text \<open>
  The loop of \<^verbatim>\<open>NewController\<close> over the candidate versions, most desirable first.
  The first list is the whole candidate list, named by the final error; the second
  is the part of it still to try, so that \<open>negotiate E args all (v # rest) s\<close> is the
  loop arriving at candidate \<open>v\<close> in state \<open>s\<close>.
\<close>

fun negotiate ::
  "env \<Rightarrow> ControllerArgs \<Rightarrow> string list \<Rightarrow> string list \<Rightarrow> state \<Rightarrow> (error + controller) \<times> state"
where
  "negotiate E args allVersions [] s =
     (Inl (NewUnsupportedVersionError
             (''controller at '' @ BaseURL args @ '' does not support any of ''
                @ showStrings allVersions)), s)"
| "negotiate E args allVersions (apiVer # rest) s =
     (case ParseMajorMinor apiVer of
        Inl err \<Rightarrow>
          (Inl (OtherError (''bad version defined in supported versions: '' @ quoted apiVer)), s)
      | Inr (major, minor) \<Rightarrow>
          (case NewAuthenticatedClient E (BaseURL args) (APIKey args) apiVer of
             Inl err \<Rightarrow>
               if IsNotValid err then (Inl (Trace err), s)
               else (Inl (NewUnexpectedError err), s)
           | Inr cl \<Rightarrow>
               (case readAPIVersion E (bareController cl) (majorMinor major minor) s of
                  (Inl err, s1) \<Rightarrow> negotiate E args allVersions rest s1
                | (Inr (caps, ver), s1) \<Rightarrow>
                    (let c = \<lparr>client = cl, apiVersion = ver, capabilities = caps\<rparr>
                     in case checkCreds E c s1 of
                          (Some err, s2) \<Rightarrow> (Inl (Trace err), s2)
                        | (None, s2) \<Rightarrow> (Inr c, s2)))))"

text \<open>
  \<open>NewControllerFrom\<close> is \<^verbatim>\<open>NewController\<close> with the candidate list as a parameter;
  \<^verbatim>\<open>NewController\<close> itself runs it on \<^verbatim>\<open>supportedAPIVersions\<close>.
\<close>

definition NewControllerFrom ::
  "env \<Rightarrow> string list \<Rightarrow> ControllerArgs \<Rightarrow> state \<Rightarrow> (error + controller) \<times> state"
where
  "NewControllerFrom E versions args s = negotiate E args versions versions s"

definition NewController :: "env \<Rightarrow> ControllerArgs \<Rightarrow> state \<Rightarrow> (error + controller) \<times> state" where
  "NewController E args s = NewControllerFrom E supportedAPIVersions args s"

subsection \<open>Query and form parameters\<close>

text \<open>The text of an \<^verbatim>\<open>int\<close> under \<^verbatim>\<open>fmt.Sprint\<close>.\<close>

function showNat :: "nat \<Rightarrow> string" where
  "showNat n =
     (if n < 10 then [char_of (48 + n)] else showNat (n div 10) @ [char_of (48 + n mod 10)])"
  by pat_completeness auto
termination
  by (relation "measure (\<lambda>n. n)") auto

definition showInt :: "int \<Rightarrow> string" where
  "showInt i = (if i < 0 then CHR ''-'' # showNat (nat (- i)) else showNat (nat i))"

text \<open>
  Modelled from the spec: the parameter helpers of \<^verbatim>\<open>urlparams.go\<close> (not among the
  sources) add a value under a name unless the value is the zero value of its type.
\<close>

definition NewURLParams :: "Values" where
  "NewURLParams = Map.empty"

definition MaybeAdd :: "string \<Rightarrow> string \<Rightarrow> Values \<Rightarrow> Values" where
  "MaybeAdd name v params = (if v \<noteq> [] then Values_Add params name v else params)"

definition MaybeAddInt :: "string \<Rightarrow> 64 word \<Rightarrow> Values \<Rightarrow> Values" where
  "MaybeAddInt name v params =
     (if v \<noteq> 0 then Values_Add params name (showInt (sint v)) else params)"

definition MaybeAddBool :: "string \<Rightarrow> bool \<Rightarrow> Values \<Rightarrow> Values" where
  "MaybeAddBool name v params = (if v then Values_Add params name ''true'' else params)"

definition MaybeAddMany :: "string \<Rightarrow> string list \<Rightarrow> Values \<Rightarrow> Values" where
  "MaybeAddMany name vs params = foldl (\<lambda>ps v. MaybeAdd name v ps) params vs"

subsection \<open>Listing operations\<close>

text \<open>
  The decoders (\<^verbatim>\<open>readBootResources\<close>, \<^verbatim>\<open>readFabrics\<close>, ..., \<^verbatim>\<open>readFile\<close>) and the
  record types they produce are declared in files that are not among the sources.
  Each operation takes its decoder as a parameter, and is polymorphic in the type of
  the decoded record. Where the source sets the record's \<^verbatim>\<open>controller\<close> field, the
  record is paired with the controller.
\<close>

definition BootResources ::
  "env \<Rightarrow> (Number \<Rightarrow> json \<Rightarrow> error + 'r list) \<Rightarrow> controller \<Rightarrow> state \<Rightarrow> (error + 'r list) \<times> state"
where
  "BootResources E readBootResources c s =
     (case get E c ''boot-resources'' s of
        (Inl err, s') \<Rightarrow> (Inl (NewUnexpectedError err), s')
      | (Inr source, s') \<Rightarrow>
          (case readBootResources (apiVersion c) source of
             Inl err \<Rightarrow> (Inl (Trace err), s')
           | Inr resources \<Rightarrow> (Inr (foldl (\<lambda>result r. result @ [r]) [] resources), s')))"

definition Fabrics ::
  "env \<Rightarrow> (Number \<Rightarrow> json \<Rightarrow> error + 'r list) \<Rightarrow> controller \<Rightarrow> state \<Rightarrow> (error + 'r list) \<times> state"
where
  "Fabrics E readFabrics c s =
     (case get E c ''fabrics'' s of
        (Inl err, s') \<Rightarrow> (Inl (NewUnexpectedError err), s')
      | (Inr source, s') \<Rightarrow>
          (case readFabrics (apiVersion c) source of
             Inl err \<Rightarrow> (Inl (Trace err), s')
           | Inr fabrics \<Rightarrow> (Inr (foldl (\<lambda>result f. result @ [f]) [] fabrics), s')))"

definition Spaces ::
  "env \<Rightarrow> (Number \<Rightarrow> json \<Rightarrow> error + 'r list) \<Rightarrow> controller \<Rightarrow> state \<Rightarrow> (error + 'r list) \<times> state"
where
  "Spaces E readSpaces c s =
     (case get E c ''spaces'' s of
        (Inl err, s') \<Rightarrow> (Inl (NewUnexpectedError err), s')
      | (Inr source, s') \<Rightarrow>
          (case readSpaces (apiVersion c) source of
             Inl err \<Rightarrow> (Inl (Trace err), s')
           | Inr spaces \<Rightarrow> (Inr (foldl (\<lambda>result space. result @ [space]) [] spaces), s')))"

definition Zones ::
  "env \<Rightarrow> (Number \<Rightarrow> json \<Rightarrow> error + 'r list) \<Rightarrow> controller \<Rightarrow> state \<Rightarrow> (error + 'r list) \<times> state"
where
  "Zones E readZones c s =
     (case get E c ''zones'' s of
        (Inl err, s') \<Rightarrow> (Inl (NewUnexpectedError err), s')
      | (Inr source, s') \<Rightarrow>
          (case readZones (apiVersion c) source of
             Inl err \<Rightarrow> (Inl (Trace err), s')
           | Inr zones \<Rightarrow> (Inr (foldl (\<lambda>result z. result @ [z]) [] zones), s')))"

record DevicesArgs =
  devHostname :: string
  devMACAddresses :: "string list"
  devSystemIDs :: "string list"
  devDomain :: string
  devZone :: string
  devAgentName :: string

definition DevicesParams :: "DevicesArgs \<Rightarrow> Values" where
  "DevicesParams args =
     MaybeAdd ''agent_name'' (devAgentName args)
       (MaybeAdd ''zone'' (devZone args)
         (MaybeAdd ''domain'' (devDomain args)
           (MaybeAddMany ''id'' (devSystemIDs args)
             (MaybeAddMany ''mac_address'' (devMACAddresses args)
               (MaybeAdd ''hostname'' (devHostname args) NewURLParams)))))"

definition Devices ::
  "env \<Rightarrow> (Number \<Rightarrow> json \<Rightarrow> error + 'r list) \<Rightarrow> controller \<Rightarrow> DevicesArgs \<Rightarrow> state
     \<Rightarrow> (error + ('r \<times> controller) list) \<times> state"
where
  "Devices E readDevices c args s =
     (case getQuery E c ''devices'' (DevicesParams args) s of
        (Inl err, s') \<Rightarrow> (Inl (NewUnexpectedError err), s')
      | (Inr source, s') \<Rightarrow>
          (case readDevices (apiVersion c) source of
             Inl err \<Rightarrow> (Inl (Trace err), s')
           | Inr devices \<Rightarrow> (Inr (foldl (\<lambda>result d. result @ [(d, c)]) [] devices), s')))"

record MachinesArgs =
  machHostnames :: "string list"
  machMACAddresses :: "string list"
  machSystemIDs :: "string list"
  machDomain :: string
  machZone :: string
  machAgentName :: string

definition MachinesParams :: "MachinesArgs \<Rightarrow> Values" where
  "MachinesParams args =
     MaybeAdd ''agent_name'' (machAgentName args)
       (MaybeAdd ''zone'' (machZone args)
         (MaybeAdd ''domain'' (machDomain args)
           (MaybeAddMany ''id'' (machSystemIDs args)
             (MaybeAddMany ''mac_address'' (machMACAddresses args)
               (MaybeAddMany ''hostname'' (machHostnames args) NewURLParams)))))"

definition Machines ::
  "env \<Rightarrow> (Number \<Rightarrow> json \<Rightarrow> error + 'r list) \<Rightarrow> controller \<Rightarrow> MachinesArgs \<Rightarrow> state
     \<Rightarrow> (error + ('r \<times> controller) list) \<times> state"
where
  "Machines E readMachines c args s =
     (case getQuery E c ''machines'' (MachinesParams args) s of
        (Inl err, s') \<Rightarrow> (Inl (NewUnexpectedError err), s')
      | (Inr source, s') \<Rightarrow>
          (case readMachines (apiVersion c) source of
             Inl err \<Rightarrow> (Inl (Trace err), s')
           | Inr machines \<Rightarrow> (Inr (foldl (\<lambda>result m. result @ [(m, c)]) [] machines), s')))"

definition Files ::
  "env \<Rightarrow> (Number \<Rightarrow> json \<Rightarrow> error + 'r list) \<Rightarrow> controller \<Rightarrow> string \<Rightarrow> state
     \<Rightarrow> (error + ('r \<times> controller) list) \<times> state"
where
  "Files E readFiles c prefix s =
     (case getQuery E c ''files'' (MaybeAdd ''prefix'' prefix NewURLParams) s of
        (Inl err, s') \<Rightarrow> (Inl (NewUnexpectedError err), s')
      | (Inr source, s') \<Rightarrow>
          (case readFiles (apiVersion c) source of
             Inl err \<Rightarrow> (Inl (Trace err), s')
           | Inr files \<Rightarrow> (Inr (foldl (\<lambda>result f. result @ [(f, c)]) [] files), s')))"

subsection \<open>Operations with their own error translation\<close>

record CreateDeviceArgs =
  cdHostname :: string
  cdMACAddresses :: "string list"
  cdDomain :: string
  cdParent :: string

definition CreateDeviceParams :: "CreateDeviceArgs \<Rightarrow> Values" where
  "CreateDeviceParams args =
     MaybeAdd ''parent'' (cdParent args)
       (MaybeAddMany ''mac_addresses'' (cdMACAddresses args)
         (MaybeAdd ''domain'' (cdDomain args)
           (MaybeAdd ''hostname'' (cdHostname args) NewURLParams)))"

definition CreateDevice ::
  "env \<Rightarrow> (Number \<Rightarrow> json \<Rightarrow> error + 'r) \<Rightarrow> controller \<Rightarrow> CreateDeviceArgs \<Rightarrow> state
     \<Rightarrow> (error + ('r \<times> controller)) \<times> state"
where
  "CreateDevice E readDevice c args s =
     (if length (cdMACAddresses args) = 0 then
        (Inl (NewBadRequestError ''at least one MAC address must be specified''), s)
      else
        (case post E c ''devices'' ''create'' (CreateDeviceParams args) s of
           (Inl err, s') \<Rightarrow>
             (case Cause err of
                ServerError msg code body \<Rightarrow>
                  if code = 400 then (Inl (Wrap err (NewBadRequestError body)), s')
                  else (Inl (NewUnexpectedError err), s')
              | _ \<Rightarrow> (Inl (NewUnexpectedError err), s'))
         | (Inr result, s') \<Rightarrow>
             (case readDevice (apiVersion c) result of
                Inl err \<Rightarrow> (Inl (Trace err), s')
              | Inr device \<Rightarrow> (Inr (device, c), s'))))"

record AllocateMachineArgs =
  amHostname :: string
  amArchitecture :: string
  amMinCPUCount :: "64 word"
  amMinMemory :: "64 word"
  amTags :: "string list"
  amNotTags :: "string list"
  amNetworks :: "string list"
  amNotNetworks :: "string list"
  amZone :: string
  amNotInZone :: "string list"
  amAgentName :: string
  amComment :: string
  amDryRun :: bool

definition AllocateMachineParams :: "AllocateMachineArgs \<Rightarrow> Values" where
  "AllocateMachineParams args =
     MaybeAddBool ''dry_run'' (amDryRun args)
       (MaybeAdd ''comment'' (amComment args)
         (MaybeAdd ''agent_name'' (amAgentName args)
           (MaybeAddMany ''not_in_zone'' (amNotInZone args)
             (MaybeAdd ''zone'' (amZone args)
               (MaybeAddMany ''not_networks'' (amNotNetworks args)
                 (MaybeAddMany ''networks'' (amNetworks args)
                   (MaybeAddMany ''not_tags'' (amNotTags args)
                     (MaybeAddMany ''tags'' (amTags args)
                       (MaybeAddInt ''mem'' (amMinMemory args)
                         (MaybeAddInt ''cpu_count'' (amMinCPUCount args)
                           (MaybeAdd ''arch'' (amArchitecture args)
                             (MaybeAdd ''name'' (amHostname args) NewURLParams))))))))))))"

definition AllocateMachine ::
  "env \<Rightarrow> (Number \<Rightarrow> json \<Rightarrow> error + 'r) \<Rightarrow> controller \<Rightarrow> AllocateMachineArgs \<Rightarrow> state
     \<Rightarrow> (error + ('r \<times> controller)) \<times> state"
where
  "AllocateMachine E readMachine c args s =
     (case post E c ''machines'' ''allocate'' (AllocateMachineParams args) s of
        (Inl err, s') \<Rightarrow>
          (case Cause err of
             ServerError msg code body \<Rightarrow>
               if code = 409 then (Inl (Wrap err (NewNoMatchError body)), s')
               else (Inl (NewUnexpectedError err), s')
           | _ \<Rightarrow> (Inl (NewUnexpectedError err), s'))
      | (Inr result, s') \<Rightarrow>
          (case readMachine (apiVersion c) result of
             Inl err \<Rightarrow> (Inl (Trace err), s')
           | Inr machine \<Rightarrow> (Inr (machine, c), s')))"

record ReleaseMachinesArgs =
  rmSystemIDs :: "string list"
  rmComment :: string

definition ReleaseMachinesParams :: "ReleaseMachinesArgs \<Rightarrow> Values" where
  "ReleaseMachinesParams args =
     MaybeAdd ''comment'' (rmComment args)
       (MaybeAddMany ''machines'' (rmSystemIDs args) NewURLParams)"

definition ReleaseMachines ::
  "env \<Rightarrow> controller \<Rightarrow> ReleaseMachinesArgs \<Rightarrow> state \<Rightarrow> error option \<times> state"
where
  "ReleaseMachines E c args s =
     (case post E c ''machines'' ''release'' (ReleaseMachinesParams args) s of
        (Inl err, s') \<Rightarrow>
          (case Cause err of
             ServerError msg code body \<Rightarrow>
               if code = 400 then (Some (Wrap err (NewBadRequestError body)), s')
               else if code = 403 then (Some (Wrap err (NewPermissionError body)), s')
               else if code = 409 then (Some (Wrap err (NewCannotCompleteError body)), s')
               else (Some (NewUnexpectedError err), s')
           | _ \<Rightarrow> (Some (NewUnexpectedError err), s'))
      | (Inr v, s') \<Rightarrow> (None, s'))"

definition GetFile ::
  "env \<Rightarrow> (Number \<Rightarrow> json \<Rightarrow> error + 'r) \<Rightarrow> controller \<Rightarrow> string \<Rightarrow> state
     \<Rightarrow> (error + ('r \<times> controller)) \<times> state"
where
  "GetFile E readFile c filename s =
     (if filename = [] then (Inl (NotValidf ''missing filename''), s)
      else
        (case get E c (''files/'' @ filename) s of
           (Inl err, s') \<Rightarrow>
             (case Cause err of
                ServerError msg code body \<Rightarrow>
                  if code = 404 then (Inl (Wrap err (NewNoMatchError body)), s')
                  else (Inl (NewUnexpectedError err), s')
              | _ \<Rightarrow> (Inl (NewUnexpectedError err), s'))
         | (Inr source, s') \<Rightarrow>
             (case readFile (apiVersion c) source of
                Inl err \<Rightarrow> (Inl (Trace err), s')
              | Inr file \<Rightarrow> (Inr (file, c), s'))))"

subsection \<open>File upload\<close>

text \<open>
  An \<^verbatim>\<open>io.Reader\<close> is the bytes it delivers and how it ends: with \<^verbatim>\<open>io.EOF\<close>
  (\<open>failure = None\<close>) or with an error. A \<^verbatim>\<open>Read\<close> may return bytes together with
  the end: \<open>eager\<close> says that the reader reports its end with the \<^verbatim>\<open>Read\<close> that
  delivers its last byte, rather than with a later \<^verbatim>\<open>Read\<close> of its own.
  \<^verbatim>\<open>Content\<close> and \<^verbatim>\<open>Reader\<close> may be \<^verbatim>\<open>nil\<close> (\<open>None\<close>); an empty, non-nil
  \<^verbatim>\<open>Content\<close> is \<open>Some []\<close>.
\<close>

record Reader =
  rdata :: bytes
  failure :: "error option"
  eager :: bool

record AddFileArgs =
  Filename :: string
  Content :: "bytes option"
  Reader :: "Reader option"
  Length :: "64 word"

text \<open>\<^verbatim>\<open>path.Split\<close>: everything up to and including the last slash, and the rest.\<close>

definition path_Split :: "string \<Rightarrow> string \<times> string" where
  "path_Split p =
     (rev (dropWhile (\<lambda>c. c \<noteq> CHR ''/'') (rev p)), rev (takeWhile (\<lambda>c. c \<noteq> CHR ''/'') (rev p)))"

definition Validate :: "AddFileArgs \<Rightarrow> error option" where
  "Validate a =
     (let (dir, file) = path_Split (Filename a) in
      if dir \<noteq> [] then Some (NotValidf (''paths in Filename '' @ quoted (Filename a)))
      else if Filename a = [] then Some (NotValidf ''missing Filename'')
      else if Content a = None then
        (if Reader a = None then Some (NotValidf ''missing Content or Reader'')
         else if Length a = 0 then Some (NotValidf ''missing Length'')
         else None)
      else
        (if Reader a \<noteq> None then Some (NotValidf ''specifying Content and Reader'')
         else if Length a \<noteq> 0 then Some (NotValidf ''specifying Length and Content'')
         else None))"

text \<open>
  \<^verbatim>\<open>ioutil.ReadAll(io.LimitReader(r, n))\<close>. With \<open>n \<le> 0\<close> the limited reader is at
  its end at once and the underlying reader is never read. Otherwise the limited
  reader asks the underlying reader for at most \<open>n\<close> bytes in all and hands on what each
  \<^verbatim>\<open>Read\<close> returns, bytes and error alike; \<^verbatim>\<open>ReadAll\<close> stops at the first error and
  returns it unless it is \<^verbatim>\<open>io.EOF\<close>. So the reader's own end is met when it has
  fewer than \<open>n\<close> bytes, and also when it has exactly \<open>n\<close> and reports its end
  together with the last of them; when it is not met, the limited reader ends the
  read after \<open>n\<close> bytes.
\<close>

definition ReadAllLimit :: "Reader \<Rightarrow> 64 word \<Rightarrow> error + bytes" where
  "ReadAllLimit r n =
     (if sint n \<le> 0 then Inr []
      else if nat (sint n) < length (rdata r) then Inr (take (nat (sint n)) (rdata r))
      else if nat (sint n) = length (rdata r) \<and> \<not> eager r then Inr (rdata r)
      else (case failure r of Some err \<Rightarrow> Inl err | None \<Rightarrow> Inr (rdata r)))"

text \<open>
  The content \<^verbatim>\<open>AddFile\<close> uploads: \<^verbatim>\<open>args.Content\<close>, or when that is \<^verbatim>\<open>nil\<close> what
  is read from the reader. (After a successful validation a \<^verbatim>\<open>nil\<close> content comes
  with a reader; reading a \<^verbatim>\<open>nil\<close> reader would panic.)
\<close>

definition fileContentOf :: "AddFileArgs \<Rightarrow> error + bytes" where
  "fileContentOf args =
     (case Content args of
        Some content \<Rightarrow> Inr content
      | None \<Rightarrow>
          (case Reader args of
             Some r \<Rightarrow>
               (case ReadAllLimit r (Length args) of
                  Inl err \<Rightarrow> Inl (Annotate err ''cannot read file content'')
                | Inr content \<Rightarrow> Inr content)
           | None \<Rightarrow> Inl (OtherError ''panic: nil Reader'')))"

definition AddFile :: "env \<Rightarrow> controller \<Rightarrow> AddFileArgs \<Rightarrow> state \<Rightarrow> error option \<times> state" where
  "AddFile E c args s =
     (case Validate args of
        Some err \<Rightarrow> (Some (Trace err), s)
      | None \<Rightarrow>
          (case fileContentOf args of
             Inl err \<Rightarrow> (Some err, s)
           | Inr fileContent \<Rightarrow>
               (case postFile E c ''files'' ''create'' [''filename'' \<mapsto> [Filename args]] fileContent s of
                  (Inl err, s') \<Rightarrow>
                    (case Cause err of
                       ServerError msg code body \<Rightarrow>
                         if code = 400 then (Some (Wrap err (NewBadRequestError body)), s')
                         else (Some (NewUnexpectedError err), s')
                     | _ \<Rightarrow> (Some (NewUnexpectedError err), s'))
                | (Inr v, s') \<Rightarrow> (None, s'))))"

subsection \<open>Vocabulary of the statements\<close>

text \<open>
  What the transport answers to the request a primitive sends from a state, and the
  state after one primitive invocation that sent a call: the counter has advanced by
  one and the call is recorded with the identifier issued for it.
\<close>

definition getAnswer :: "env \<Rightarrow> controller \<Rightarrow> string \<Rightarrow> string \<Rightarrow> Values \<Rightarrow> state \<Rightarrow> error + bytes" where
  "getAnswer E c path oper params s =
     Get E (history s) (client c) (EnsureTrailingSlash path) oper params"

definition postAnswer ::
  "env \<Rightarrow> controller \<Rightarrow> string \<Rightarrow> string \<Rightarrow> Values \<Rightarrow> Files \<Rightarrow> state \<Rightarrow> error + bytes"
where
  "postAnswer E c path oper params files s =
     Post E (history s) (client c) (EnsureTrailingSlash path) oper params files"

definition afterCall :: "state \<Rightarrow> call \<Rightarrow> state" where
  "afterCall s k =
     s\<lparr>requestNumber := requestNumber s + 1, wire := wire s @ [(requestNumber s + 1, k)]\<rparr>"

definition getCall :: "controller \<Rightarrow> string \<Rightarrow> string \<Rightarrow> Values \<Rightarrow> call" where
  "getCall c path oper params = GetCall (client c) (EnsureTrailingSlash path) oper params"

definition postCall :: "controller \<Rightarrow> string \<Rightarrow> string \<Rightarrow> Values \<Rightarrow> Files \<Rightarrow> call" where
  "postCall c path oper params files =
     PostCall (client c) (EnsureTrailingSlash path) oper params files"

text \<open>The Kind of the error an operation returned, if it returned one that has a Kind.\<close>

definition resultKind :: "error option \<Rightarrow> Kind option" where
  "resultKind r = (case r of None \<Rightarrow> None | Some e \<Rightarrow> kindOf e)"

text \<open>
  An operation's result is an error of Kind unexpected that wraps an error with the
  cause of \<open>err\<close>.
\<close>

definition unexpectedFrom :: "error \<Rightarrow> error option \<Rightarrow> bool" where
  "unexpectedFrom err r =
     (case r of
        Some (Wrap p (KindError k msg)) \<Rightarrow> k = Unexpected \<and> Cause p = Cause err
      | _ \<Rightarrow> False)"

subsection \<open>Simulated transports\<close>

definition initialState :: state where
  "initialState = \<lparr>requestNumber = 0, wire = []\<rparr>"

definition demoArgs :: ControllerArgs where
  "demoArgs = \<lparr>BaseURL = ''http://maas.example/MAAS/'', APIKey = ''a:b:c''\<rparr>"

definition demoClient :: "string \<Rightarrow> Client" where
  "demoClient v =
     \<lparr>clientBaseURL = ''http://maas.example/MAAS/'', clientAPIKey = ''a:b:c'', clientVersion = v\<rparr>"

definition demoController :: controller where
  "demoController =
     \<lparr>client = demoClient ''2.0'',
      apiVersion = majorMinor 2 0,
      capabilities = {''networks-management''}\<rparr>"

text \<open>A transport that answers every request with the same error.\<close>

definition failingTransport :: "error \<Rightarrow> env" where
  "failingTransport err =
     \<lparr>clientCheck = (\<lambda>baseURL apiKey v. None),
      Get = (\<lambda>h cl path oper params. Inl err),
      Post = (\<lambda>h cl path oper params files. Inl err),
      Delete = (\<lambda>h cl path. Some err),
      Unmarshal = (\<lambda>bs. Inl (OtherError ''unexpected end of JSON input''))\<rparr>"

text \<open>
  A server that answers the version request of a client with the document
  \<open>versionDoc\<close> chooses for the client's version, and the identity check with the
  status \<open>whoami\<close> (200 is success). Every POST succeeds. The decoder knows four
  documents: a well-formed version document, one with a number among the
  capabilities, a user record (which has no capabilities field) and \<^verbatim>\<open>null\<close>.
\<close>

definition demoDecode :: "bytes \<Rightarrow> error + json" where
  "demoDecode bs =
     (if bs = ''caps'' then
        Inr (JObject [(''capabilities'',
               JArray [JString ''networks-management'', JString ''static-ipaddresses''])])
      else if bs = ''malformed'' then
        Inr (JObject [(''capabilities'', JArray [JString ''networks-management'', JNumber 1])])
      else if bs = ''user'' then Inr (JObject [(''username'', JString ''admin'')])
      else if bs = ''null'' then Inr JNull
      else Inl (OtherError ''invalid character''))"

definition demoServer :: "(string \<Rightarrow> bytes) \<Rightarrow> int \<Rightarrow> env" where
  "demoServer versionDoc whoami =
     \<lparr>clientCheck = (\<lambda>baseURL apiKey v. None),
      Get = (\<lambda>h cl path oper params.
               if path = ''version/'' then Inr (versionDoc (clientVersion cl))
               else if path = ''users/'' \<and> oper = ''whoami'' then
                 (if whoami = 200 then Inr ''user''
                  else Inl (ServerError ''ServerError'' whoami ''Invalid credentials''))
               else Inl (ServerError ''ServerError'' 404 ''Not Found'')),
      Post = (\<lambda>h cl path oper params files. Inr ''null''),
      Delete = (\<lambda>h cl path. None),
      Unmarshal = demoDecode\<rparr>"


text \<open>Arguments used in the worked instances.\<close>

definition serverError :: "int \<Rightarrow> error" where
  "serverError code = ServerError ''ServerError'' code ''refused''"

definition demoRelease :: ReleaseMachinesArgs where
  "demoRelease = \<lparr>rmSystemIDs = [''4y3h7n''], rmComment = ''done''\<rparr>"

definition demoAllocate :: AllocateMachineArgs where
  "demoAllocate =
     \<lparr>amHostname = ''node-1'', amArchitecture = [], amMinCPUCount = 2, amMinMemory = 0,
      amTags = [], amNotTags = [], amNetworks = [], amNotNetworks = [], amZone = [],
      amNotInZone = [], amAgentName = [], amComment = [], amDryRun = False\<rparr>"

definition demoDevice :: CreateDeviceArgs where
  "demoDevice =
     \<lparr>cdHostname = ''printer'', cdMACAddresses = [''52:54:00:12:34:56''], cdDomain = [],
      cdParent = []\<rparr>"

definition demoUpload :: AddFileArgs where
  "demoUpload =
     \<lparr>Filename = ''notes.txt'', Content = None,
      Reader = Some \<lparr>rdata = ''hello world'', failure = None, eager = False\<rparr>, Length = 5\<rparr>"

definition noDecoder :: "Number \<Rightarrow> json \<Rightarrow> error + unit" where
  "noDecoder v j = Inr ()"

definition demoDevices :: DevicesArgs where
  "demoDevices =
     \<lparr>devHostname = [], devMACAddresses = [], devSystemIDs = [''4y3h7n''], devDomain = [],
      devZone = [], devAgentName = []\<rparr>"

definition demoMachines :: MachinesArgs where
  "demoMachines =
     \<lparr>machHostnames = [''node-1'', ''node-2''], machMACAddresses = [], machSystemIDs = [],
      machDomain = [], machZone = ''default'', machAgentName = []\<rparr>"

definition noListDecoder :: "Number \<Rightarrow> json \<Rightarrow> error + unit list" where
  "noListDecoder v j = Inr []"

definition refused :: error where
  "refused = OtherError ''dial tcp: connection refused''"

text \<open>The file content a call carried, and the content carried by the last call sent.\<close>

fun uploaded :: "call \<Rightarrow> bytes option" where
  "uploaded (PostCall cl path oper params files) = files ''file''"
| "uploaded (GetCall cl path oper params) = None"
| "uploaded (DeleteCall cl path) = None"

definition lastUpload :: "state \<Rightarrow> bytes option" where
  "lastUpload s = (if wire s = [] then None else uploaded (snd (last (wire s))))"


text \<open>Upload arguments: a path in the name, a negative length, a reader shorter than the length.\<close>

definition slashUpload :: AddFileArgs where
  "slashUpload = \<lparr>Filename = ''etc/passwd'', Content = Some ''x'', Reader = None, Length = 0\<rparr>"

definition negativeUpload :: AddFileArgs where
  "negativeUpload =
     \<lparr>Filename = ''notes.txt'', Content = None,
      Reader = Some \<lparr>rdata = ''hello world'', failure = None, eager = False\<rparr>, Length = - 1\<rparr>"

definition shortUpload :: AddFileArgs where
  "shortUpload =
     \<lparr>Filename = ''notes.txt'', Content = None,
      Reader = Some \<lparr>rdata = ''hi'', failure = None, eager = False\<rparr>, Length = 5\<rparr>"

text \<open>
  A primitive invocation (\<^verbatim>\<open>_getRaw\<close>, \<^verbatim>\<open>_postRaw\<close> or \<^verbatim>\<open>delete\<close>) with its
  arguments, and the state after a sequence of them. The atomic increment makes every
  identifier request one indivisible step, so that concurrent callers take their
  identifiers in some sequence.
\<close>

datatype invocation =
    DoGet controller string string Values
  | DoPost controller string string Values Files
  | DoDelete controller string

fun invoke :: "env \<Rightarrow> invocation \<Rightarrow> state \<Rightarrow> state" where
  "invoke E (DoGet c path oper params) s = snd (u_getRaw E c path oper params s)"
| "invoke E (DoPost c path oper params files) s = snd (u_postRaw E c path oper params files s)"
| "invoke E (DoDelete c path) s = snd (delete E c path s)"

definition run :: "env \<Rightarrow> invocation list \<Rightarrow> state \<Rightarrow> state" where
  "run E invs s = foldl (\<lambda>st i. invoke E i st) s invs"

fun callOf :: "invocation \<Rightarrow> call" where
  "callOf (DoGet c path oper params) = getCall c path oper params"
| "callOf (DoPost c path oper params files) = postCall c path oper params files"
| "callOf (DoDelete c path) = DeleteCall (client c) (EnsureTrailingSlash path)"


text \<open>
  The identifiers issued so far increase strictly (as signed 64-bit numbers) and
  none exceeds the counter.
\<close>

definition wellSequenced :: "state \<Rightarrow> bool" where
  "wellSequenced s \<longleftrightarrow>
     sorted_wrt (\<lambda>a b. sint a < sint b) (issued s) \<and>
     list_all (\<lambda>i. sint i \<le> sint (requestNumber s)) (issued s)"


text \<open>Three invocations.\<close>

definition demoInvocations :: "invocation list" where
  "demoInvocations =
     [DoGet demoController ''zones'' [] Map.empty,
      DoPost demoController ''machines'' ''release'' (ReleaseMachinesParams demoRelease) Map.empty,
      DoDelete demoController ''devices/4y3h7n'']"


text \<open>
  Readers that end with an error: after two bytes, together with the fifth byte, and
  after eleven bytes, each read with the length five.
\<close>

definition brokenUpload :: AddFileArgs where
  "brokenUpload =
     \<lparr>Filename = ''notes.txt'', Content = None,
      Reader = Some \<lparr>rdata = ''hi'', failure = Some (OtherError ''unexpected EOF''), eager = False\<rparr>,
      Length = 5\<rparr>"

definition eagerUpload :: AddFileArgs where
  "eagerUpload =
     \<lparr>Filename = ''notes.txt'', Content = None,
      Reader = Some \<lparr>rdata = ''hello'', failure = Some (OtherError ''connection reset''), eager = True\<rparr>,
      Length = 5\<rparr>"

definition lateUpload :: AddFileArgs where
  "lateUpload =
     \<lparr>Filename = ''notes.txt'', Content = None,
      Reader = Some \<lparr>rdata = ''hello world'', failure = Some (OtherError ''connection reset''),
                     eager = True\<rparr>,
      Length = 5\<rparr>"


text \<open>
  The reader's own end is met by a read of at most \<open>n\<close> bytes: the length is positive
  and the reader has fewer than \<open>n\<close> bytes, or exactly \<open>n\<close> and reports its end with
  the last of them.
\<close>

definition endMet :: "Reader \<Rightarrow> 64 word \<Rightarrow> bool" where
  "endMet r n \<longleftrightarrow>
     0 < sint n \<and>
     (length (rdata r) < nat (sint n) \<or> (length (rdata r) = nat (sint n) \<and> eager r))"


text \<open>
  The identifiers issued so far are consecutive values of the counter, the last one
  being its present value.
\<close>

definition consecutive :: "state \<Rightarrow> bool" where
  "consecutive s \<longleftrightarrow>
     issued s =
       map (\<lambda>k. requestNumber s - of_nat (length (issued s)) + of_nat (Suc k))
         [0..<length (issued s)]"


text \<open>One invocation, to be repeated.\<close>

definition oneDelete :: invocation where
  "oneDelete = DoDelete demoController ''devices/4y3h7n''"






subsection \<open>Basic facts\<close>

lemma ParseMajorMinor_2_0: "ParseMajorMinor ''2.0'' = Inr (2, 0)"
  by (simp add: ParseMajorMinor_def Atoi_def digitVal_def)

lemma history_afterCall: "history (afterCall s k) = history s @ [k]"
  by (simp add: history_def afterCall_def)

lemma issued_afterCall: "issued (afterCall s k) = issued s @ [requestNumber s + 1]"
  by (simp add: issued_def afterCall_def)

lemma requestNumber_afterCall: "requestNumber (afterCall s k) = requestNumber s + 1"
  by (simp add: afterCall_def)

lemma u_getRaw_eq:
  "u_getRaw E c path oper params s =
     (case getAnswer E c path oper params s of Inl err \<Rightarrow> Inl (Trace err) | Inr bs \<Rightarrow> Inr bs,
      afterCall s (getCall c path oper params))"
  by (simp add: u_getRaw_def nextRequestID_def getAnswer_def afterCall_def getCall_def
      history_def split: sum.splits)

lemma u_postRaw_eq:
  "u_postRaw E c path oper params files s =
     (case postAnswer E c path oper params files s of Inl err \<Rightarrow> Inl (Trace err) | Inr bs \<Rightarrow> Inr bs,
      afterCall s (postCall c path oper params files))"
  by (simp add: u_postRaw_def nextRequestID_def postAnswer_def afterCall_def postCall_def
      history_def split: sum.splits)

lemma delete_eq:
  "delete E c path s =
     (case Delete E (history s) (client c) (EnsureTrailingSlash path) of
        Some err \<Rightarrow> Some (Trace err) | None \<Rightarrow> None,
      afterCall s (DeleteCall (client c) (EnsureTrailingSlash path)))"
  by (simp add: delete_def nextRequestID_def afterCall_def history_def split: option.splits)

lemma u_get_eq:
  "u_get E c path oper params s =
     (case getAnswer E c path oper params s of
        Inl err \<Rightarrow> Inl (Trace (Trace err))
      | Inr bs \<Rightarrow> (case Unmarshal E bs of Inl err \<Rightarrow> Inl (Trace err) | Inr parsed \<Rightarrow> Inr parsed),
      afterCall s (getCall c path oper params))"
  by (simp add: u_get_def u_getRaw_eq split: sum.splits)

lemma post_eq:
  "post E c path oper params s =
     (case postAnswer E c path oper params Map.empty s of
        Inl err \<Rightarrow> Inl (Trace (Trace err))
      | Inr bs \<Rightarrow> (case Unmarshal E bs of Inl err \<Rightarrow> Inl (Trace err) | Inr parsed \<Rightarrow> Inr parsed),
      afterCall s (postCall c path oper params Map.empty))"
  by (simp add: post_def u_postRaw_eq split: sum.splits)

lemma kindOf_simps:
  "kindOf (Wrap other (KindError k msg)) = Some k"
  "kindOf (KindError k msg) = Some k"
  "kindOf (Trace e) = kindOf e"
  "kindOf (Annotate e msg) = kindOf e"
  "kindOf (NewUnexpectedError e) = Some Unexpected"
  "kindOf (NotValidf msg) = Some NotValid"
  by (simp_all add: kindOf_def NewUnexpectedError_def NotValidf_def)

lemma postFile_eq:
  "postFile E c path oper params content s =
     (case postAnswer E c path oper params [''file'' \<mapsto> content] s of
        Inl err \<Rightarrow> Inl (Trace err) | Inr bs \<Rightarrow> Inr bs,
      afterCall s (postCall c path oper params [''file'' \<mapsto> content]))"
  by (simp add: postFile_def u_postRaw_eq)

lemma Cause_serverError: "Cause (serverError code) = ServerError ''ServerError'' code ''refused''"
  by (simp add: serverError_def)

lemma failingTransport_answers:
  "postAnswer (failingTransport e) c path oper params files s = Inl e"
  "getAnswer (failingTransport e) c path oper params s = Inl e"
  by (simp_all add: postAnswer_def getAnswer_def failingTransport_def)

lemma Validate_demoUpload: "Validate demoUpload = None"
  by (simp add: Validate_def demoUpload_def path_Split_def)

lemma fileContentOf_demoUpload: "fileContentOf demoUpload = Inr ''hello''"
  by (simp add: fileContentOf_def demoUpload_def ReadAllLimit_def)

section \<open>Translation of transport failures\<close>

text \<open>
  C1. For every operation class and status code of the error-translation table: when
  the transport answers the operation's request with an error whose cause is a
  \<^verbatim>\<open>ServerError\<close> carrying that status code, the operation returns an error of the
  Kind the table gives. Machine release maps 400 to bad-request, 403 to
  permission-denied and 409 to cannot-complete; machine allocation maps 409 to
  no-match; file fetch by name maps 404 to no-match; device creation and file
  creation map 400 to bad-request; the credential check maps 401 to
  permission-denied. (The request is sent at all when the local checks pass: a
  filename for the fetch, a MAC address for the device, valid upload arguments.)
\<close>

theorem status_code_translation:
  assumes "Cause err = ServerError msg code body"
  shows
    "(postAnswer E c ''machines'' ''release'' (ReleaseMachinesParams ra) Map.empty s = Inl err \<longrightarrow>
        (code = 400 \<longrightarrow> resultKind (fst (ReleaseMachines E c ra s)) = Some BadRequest) \<and>
        (code = 403 \<longrightarrow> resultKind (fst (ReleaseMachines E c ra s)) = Some PermissionDenied) \<and>
        (code = 409 \<longrightarrow> resultKind (fst (ReleaseMachines E c ra s)) = Some CannotComplete)) \<and>
     (postAnswer E c ''machines'' ''allocate'' (AllocateMachineParams aa) Map.empty s = Inl err \<longrightarrow>
        code = 409 \<longrightarrow>
        resultKind (errOf (fst (AllocateMachine E readMachine c aa s))) = Some NoMatch) \<and>
     (filename \<noteq> [] \<longrightarrow>
      getAnswer E c (''files/'' @ filename) [] Map.empty s = Inl err \<longrightarrow> code = 404 \<longrightarrow>
        resultKind (errOf (fst (GetFile E readFile c filename s))) = Some NoMatch) \<and>
     (cdMACAddresses da \<noteq> [] \<longrightarrow>
      postAnswer E c ''devices'' ''create'' (CreateDeviceParams da) Map.empty s = Inl err \<longrightarrow>
        code = 400 \<longrightarrow>
        resultKind (errOf (fst (CreateDevice E readDevice c da s))) = Some BadRequest) \<and>
     (Validate fa = None \<longrightarrow> fileContentOf fa = Inr content \<longrightarrow>
      postAnswer E c ''files'' ''create'' [''filename'' \<mapsto> [Filename fa]] [''file'' \<mapsto> content] s
        = Inl err \<longrightarrow> code = 400 \<longrightarrow>
        resultKind (fst (AddFile E c fa s)) = Some BadRequest) \<and>
     (getAnswer E c ''users'' ''whoami'' Map.empty s = Inl err \<longrightarrow> code = 401 \<longrightarrow>
        resultKind (fst (checkCreds E c s)) = Some PermissionDenied)"
  using assms
  by (simp add: ReleaseMachines_def AllocateMachine_def GetFile_def CreateDevice_def AddFile_def
      checkCreds_def get_def getOp_def u_get_eq post_eq postFile_eq resultKind_def errOf_def
      kindOf_simps NewBadRequestError_def NewPermissionError_def NewCannotCompleteError_def
      NewNoMatchError_def)

theorem status_code_translation_witness:
  "resultKind (fst (ReleaseMachines (failingTransport (serverError 400)) demoController
      demoRelease initialState)) = Some BadRequest \<and>
   resultKind (fst (ReleaseMachines (failingTransport (serverError 403)) demoController
      demoRelease initialState)) = Some PermissionDenied \<and>
   resultKind (fst (ReleaseMachines (failingTransport (serverError 409)) demoController
      demoRelease initialState)) = Some CannotComplete \<and>
   resultKind (errOf (fst (AllocateMachine (failingTransport (serverError 409)) noDecoder
      demoController demoAllocate initialState))) = Some NoMatch \<and>
   resultKind (errOf (fst (GetFile (failingTransport (serverError 404)) noDecoder
      demoController ''notes.txt'' initialState))) = Some NoMatch \<and>
   resultKind (errOf (fst (CreateDevice (failingTransport (serverError 400)) noDecoder
      demoController demoDevice initialState))) = Some BadRequest \<and>
   resultKind (fst (AddFile (failingTransport (serverError 400)) demoController demoUpload
      initialState)) = Some BadRequest \<and>
   resultKind (fst (checkCreds (failingTransport (serverError 401)) demoController
      initialState)) = Some PermissionDenied"
proof -
  have m: "cdMACAddresses demoDevice \<noteq> []"
    by (simp add: demoDevice_def)
  show ?thesis
    using status_code_translation [OF Cause_serverError [of 400],
        where E = "failingTransport (serverError 400)"
        and c = demoController and s = initialState and ra = demoRelease and da = demoDevice
        and fa = demoUpload and content = "''hello''" and readDevice = noDecoder]
      status_code_translation [OF Cause_serverError [of 403],
        where E = "failingTransport (serverError 403)"
        and c = demoController and s = initialState and ra = demoRelease]
      status_code_translation [OF Cause_serverError [of 409],
        where E = "failingTransport (serverError 409)"
        and c = demoController and s = initialState and ra = demoRelease and aa = demoAllocate
        and readMachine = noDecoder]
      status_code_translation [OF Cause_serverError [of 404],
        where E = "failingTransport (serverError 404)"
        and c = demoController and s = initialState and filename = "''notes.txt''"
        and readFile = noDecoder]
      status_code_translation [OF Cause_serverError [of 401],
        where E = "failingTransport (serverError 401)"
        and c = demoController and s = initialState]
    by (simp add: failingTransport_answers m Validate_demoUpload fileContentOf_demoUpload)
qed

lemma unexpectedFrom_NewUnexpectedError:
  "Cause p = Cause err \<Longrightarrow> unexpectedFrom err (Some (NewUnexpectedError p))"
  by (simp add: unexpectedFrom_def NewUnexpectedError_def)

lemma unexpectedFrom_kind: "unexpectedFrom err r \<Longrightarrow> resultKind r = Some Unexpected"
  by (auto simp: unexpectedFrom_def resultKind_def kindOf_def split: option.splits error.splits)

text \<open>
  C2. For every operation of the controller and every transport failure whose status
  code is not mapped for that operation, failures whose cause is not a
  \<^verbatim>\<open>ServerError\<close> at all included (\<open>statusOf err = None\<close>): the operation returns
  an error of Kind unexpected that wraps the transport's error, never the raw error
  itself. The listing operations map no status code; the others are taken outside the
  codes of their table rows. (The version request inside \<^verbatim>\<open>NewController\<close> is not
  one of these operations: its failure makes the loop try the next candidate, see C4.)
\<close>

theorem unmapped_failures_unexpected:
  "(getAnswer E c ''boot-resources'' [] Map.empty s = Inl err \<longrightarrow>
      unexpectedFrom err (errOf (fst (BootResources E readBootResources c s)))) \<and>
   (getAnswer E c ''fabrics'' [] Map.empty s = Inl err \<longrightarrow>
      unexpectedFrom err (errOf (fst (Fabrics E readFabrics c s)))) \<and>
   (getAnswer E c ''spaces'' [] Map.empty s = Inl err \<longrightarrow>
      unexpectedFrom err (errOf (fst (Spaces E readSpaces c s)))) \<and>
   (getAnswer E c ''zones'' [] Map.empty s = Inl err \<longrightarrow>
      unexpectedFrom err (errOf (fst (Zones E readZones c s)))) \<and>
   (getAnswer E c ''devices'' [] (DevicesParams dva) s = Inl err \<longrightarrow>
      unexpectedFrom err (errOf (fst (Devices E readDevices c dva s)))) \<and>
   (getAnswer E c ''machines'' [] (MachinesParams ma) s = Inl err \<longrightarrow>
      unexpectedFrom err (errOf (fst (Machines E readMachines c ma s)))) \<and>
   (getAnswer E c ''files'' [] (MaybeAdd ''prefix'' prefix NewURLParams) s = Inl err \<longrightarrow>
      unexpectedFrom err (errOf (fst (Files E readFiles c prefix s)))) \<and>
   (cdMACAddresses da \<noteq> [] \<longrightarrow>
    postAnswer E c ''devices'' ''create'' (CreateDeviceParams da) Map.empty s = Inl err \<longrightarrow>
    statusOf err \<noteq> Some 400 \<longrightarrow>
      unexpectedFrom err (errOf (fst (CreateDevice E readDevice c da s)))) \<and>
   (postAnswer E c ''machines'' ''allocate'' (AllocateMachineParams aa) Map.empty s = Inl err \<longrightarrow>
    statusOf err \<noteq> Some 409 \<longrightarrow>
      unexpectedFrom err (errOf (fst (AllocateMachine E readMachine c aa s)))) \<and>
   (postAnswer E c ''machines'' ''release'' (ReleaseMachinesParams ra) Map.empty s = Inl err \<longrightarrow>
    statusOf err \<noteq> Some 400 \<and> statusOf err \<noteq> Some 403 \<and> statusOf err \<noteq> Some 409 \<longrightarrow>
      unexpectedFrom err (fst (ReleaseMachines E c ra s))) \<and>
   (filename \<noteq> [] \<longrightarrow>
    getAnswer E c (''files/'' @ filename) [] Map.empty s = Inl err \<longrightarrow>
    statusOf err \<noteq> Some 404 \<longrightarrow>
      unexpectedFrom err (errOf (fst (GetFile E readFile c filename s)))) \<and>
   (Validate fa = None \<longrightarrow> fileContentOf fa = Inr content \<longrightarrow>
    postAnswer E c ''files'' ''create'' [''filename'' \<mapsto> [Filename fa]] [''file'' \<mapsto> content] s
      = Inl err \<longrightarrow>
    statusOf err \<noteq> Some 400 \<longrightarrow>
      unexpectedFrom err (fst (AddFile E c fa s))) \<and>
   (getAnswer E c ''users'' ''whoami'' Map.empty s = Inl err \<longrightarrow>
    statusOf err \<noteq> Some 401 \<longrightarrow>
      unexpectedFrom err (fst (checkCreds E c s)))"
  by (auto simp: BootResources_def Fabrics_def Spaces_def Zones_def Devices_def Machines_def
      Files_def CreateDevice_def AllocateMachine_def ReleaseMachines_def GetFile_def AddFile_def
      checkCreds_def get_def getQuery_def getOp_def u_get_eq post_eq postFile_eq errOf_def
      unexpectedFrom_NewUnexpectedError statusOf_def split: error.splits)


theorem unmapped_failures_unexpected_witness:
  "unexpectedFrom refused (errOf (fst (BootResources (failingTransport refused) noListDecoder demoController initialState))) \<and>
   unexpectedFrom refused (errOf (fst (Fabrics (failingTransport refused) noListDecoder demoController initialState))) \<and>
   unexpectedFrom refused (errOf (fst (Spaces (failingTransport refused) noListDecoder demoController initialState))) \<and>
   unexpectedFrom refused (errOf (fst (Zones (failingTransport refused) noListDecoder demoController initialState))) \<and>
   unexpectedFrom refused (errOf (fst (Devices (failingTransport refused) noListDecoder demoController demoDevices initialState))) \<and>
   unexpectedFrom refused (errOf (fst (Machines (failingTransport refused) noListDecoder demoController demoMachines initialState))) \<and>
   unexpectedFrom refused (errOf (fst (Files (failingTransport refused) noListDecoder demoController ''no'' initialState))) \<and>
   unexpectedFrom refused (errOf (fst (CreateDevice (failingTransport refused) noDecoder demoController demoDevice initialState))) \<and>
   unexpectedFrom refused (errOf (fst (AllocateMachine (failingTransport refused) noDecoder demoController demoAllocate initialState))) \<and>
   unexpectedFrom refused (fst (ReleaseMachines (failingTransport refused) demoController demoRelease initialState)) \<and>
   unexpectedFrom refused (errOf (fst (GetFile (failingTransport refused) noDecoder demoController ''notes.txt'' initialState))) \<and>
   unexpectedFrom refused (fst (AddFile (failingTransport refused) demoController demoUpload initialState)) \<and>
   unexpectedFrom refused (fst (checkCreds (failingTransport refused) demoController initialState)) \<and>
   unexpectedFrom (serverError 500)
     (fst (ReleaseMachines (failingTransport (serverError 500)) demoController demoRelease initialState)) \<and>
   unexpectedFrom (serverError 409)
     (fst (checkCreds (failingTransport (serverError 409)) demoController initialState))"
proof -
  have m: "cdMACAddresses demoDevice \<noteq> []"
    by (simp add: demoDevice_def)
  have st: "statusOf refused = None" "statusOf (serverError code) = Some code" for code
    by (simp_all add: statusOf_def refused_def serverError_def)
  note inst = unmapped_failures_unexpected [where c = demoController and s = initialState
        and dva = demoDevices and ma = demoMachines
        and prefix = "''no''" and da = demoDevice and aa = demoAllocate and ra = demoRelease
        and filename = "''notes.txt''" and fa = demoUpload and content = "''hello''"
        and readBootResources = noListDecoder and readFabrics = noListDecoder
        and readSpaces = noListDecoder and readZones = noListDecoder
        and readDevices = noListDecoder and readMachines = noListDecoder
        and readFiles = noListDecoder and readDevice = noDecoder and readMachine = noDecoder
        and readFile = noDecoder]
  show ?thesis
    using inst [where E = "failingTransport refused" and err = refused]
      inst [where E = "failingTransport (serverError 500)" and err = "serverError 500"]
      inst [where E = "failingTransport (serverError 409)" and err = "serverError 409"]
    by (simp add: failingTransport_answers m st Validate_demoUpload fileContentOf_demoUpload)
qed

lemma coerceElems_strings: "coerceElems schema_String (map JString caps) = Inr caps"
  by (induction caps) (simp_all add: schema_String_def)

lemma coerceElems_Inr: "coerceElems schema_String xs = Inr ys \<Longrightarrow> xs = map JString ys"
  by (induction xs arbitrary: ys)
    (auto simp: schema_String_def split: sum.splits json.splits)

lemma coerceElems_nonstring:
  "x \<in> set xs \<Longrightarrow> \<not> isString x \<Longrightarrow> isl (coerceElems schema_String xs)"
  by (induction xs) (auto simp: schema_String_def isString_def split: sum.splits json.splits)

lemma coerce_version_ok:
  "field doc ''capabilities'' = Some (JArray (map JString caps)) \<Longrightarrow>
   schema_FieldMap [(''capabilities'', schema_List schema_String)] doc = Inr [(''capabilities'', caps)]"
  by (auto simp: field_def schema_FieldMap_def schema_List_def coerceElems_strings
      split: json.splits)

lemma coerce_version_missing:
  "field doc ''capabilities'' = None \<Longrightarrow>
   isl (schema_FieldMap [(''capabilities'', schema_List schema_String)] doc)"
  by (auto simp: field_def schema_FieldMap_def schema_List_def split: json.splits)

lemma coerce_version_nonstring:
  "field doc ''capabilities'' = Some (JArray xs) \<Longrightarrow> x \<in> set xs \<Longrightarrow> \<not> isString x \<Longrightarrow>
   isl (schema_FieldMap [(''capabilities'', schema_List schema_String)] doc)"
  using coerceElems_nonstring [of x xs]
  by (auto simp: field_def schema_FieldMap_def schema_List_def split: json.splits sum.splits)

lemma coerce_version_Inr:
  "schema_FieldMap [(''capabilities'', schema_List schema_String)] doc = Inr valid \<Longrightarrow>
   \<exists>caps. valid = [(''capabilities'', caps)] \<and>
          field doc ''capabilities'' = Some (JArray (map JString caps))"
  by (auto simp: field_def schema_FieldMap_def schema_List_def
      split: json.splits sum.splits option.splits dest: coerceElems_Inr)

lemma foldl_insert_set: "foldl (\<lambda>caps v. insert v caps) A xs = A \<union> set xs"
  by (induction xs arbitrary: A) auto

lemma readAPIVersion_eq:
  "readAPIVersion E c ver s =
     (case getAnswer E c ''version'' [] Map.empty s of
        Inl err \<Rightarrow> Inl (Trace (Trace (Trace err)))
      | Inr bs \<Rightarrow>
          (case Unmarshal E bs of
             Inl err \<Rightarrow> Inl (Trace (Trace err))
           | Inr doc \<Rightarrow>
               (case schema_FieldMap [(''capabilities'', schema_List schema_String)] doc of
                  Inl err \<Rightarrow> Inl (WrapWithDeserializationError err ''version response'')
                | Inr valid \<Rightarrow>
                    (case map_of valid ''capabilities'' of
                       None \<Rightarrow> Inl (OtherError ''panic: interface conversion'')
                     | Some capabilityValues \<Rightarrow> Inr (set capabilityValues, ver)))),
      afterCall s (getCall c ''version'' [] Map.empty))"
  by (simp add: readAPIVersion_def get_def u_get_eq foldl_insert_set split: sum.splits option.splits)

lemma readAPIVersion_state:
  "snd (readAPIVersion E c ver s) = afterCall s (getCall c ''version'' [] Map.empty)"
  by (simp add: readAPIVersion_eq)

text \<open>The type assertions of \<^verbatim>\<open>readAPIVersion\<close> never panic.\<close>

lemma readAPIVersion_no_panic:
  "fst (readAPIVersion E c ver s) \<noteq> Inl (OtherError ''panic: interface conversion'')"
  by (auto simp: readAPIVersion_eq WrapWithDeserializationError_def
      split: sum.splits option.splits dest!: coerce_version_Inr)

lemma readAPIVersion_version:
  "fst (readAPIVersion E c ver s) = Inr (caps, ver') \<Longrightarrow> ver' = ver"
  by (auto simp: readAPIVersion_eq split: sum.splits option.splits)

lemma EnsureTrailingSlash_simps:
  "EnsureTrailingSlash ''version'' = ''version/''"
  "EnsureTrailingSlash ''users'' = ''users/''"
  by (simp_all add: EnsureTrailingSlash_def)


lemma demoServer_version:
  "getAnswer (demoServer d w) c ''version'' [] Map.empty s = Inr (d (clientVersion (client c)))"
  by (simp add: getAnswer_def demoServer_def EnsureTrailingSlash_def)

lemma demoServer_whoami:
  "getAnswer (demoServer d w) c ''users'' ''whoami'' Map.empty s =
     (if w = 200 then Inr ''user'' else Inl (ServerError ''ServerError'' w ''Invalid credentials''))"
  by (simp add: getAnswer_def demoServer_def EnsureTrailingSlash_def)

lemma demoServer_Unmarshal: "Unmarshal (demoServer d w) = demoDecode"
  by (simp add: demoServer_def)

lemma demoServer_client:
  "NewAuthenticatedClient (demoServer d w) (BaseURL demoArgs) (APIKey demoArgs) v = Inr (demoClient v)"
  by (simp add: NewAuthenticatedClient_def demoServer_def demoArgs_def demoClient_def)





lemma negotiate_success:
  assumes "ParseMajorMinor v = Inr (major, minor)"
    and "NewAuthenticatedClient E (BaseURL args) (APIKey args) v = Inr cl"
    and "fst (readAPIVersion E (bareController cl) (majorMinor major minor) s) = Inr (caps, ver)"
    and "fst (checkCreds E \<lparr>client = cl, apiVersion = majorMinor major minor, capabilities = caps\<rparr>
           (afterCall s (getCall (bareController cl) ''version'' [] Map.empty))) = None"
  shows "fst (negotiate E args allVersions (v # rest) s) =
           Inr \<lparr>client = cl, apiVersion = majorMinor major minor, capabilities = caps\<rparr>"
proof -
  have ver: "ver = majorMinor major minor"
    using assms(3) by (rule readAPIVersion_version)
  have rd: "readAPIVersion E (bareController cl) (majorMinor major minor) s =
      (Inr (caps, majorMinor major minor),
       afterCall s (getCall (bareController cl) ''version'' [] Map.empty))"
    using assms(3) readAPIVersion_state [of E "bareController cl" "majorMinor major minor" s]
    by (simp add: prod_eq_iff ver)
  obtain r s2 where cc:
    "checkCreds E \<lparr>client = cl, apiVersion = majorMinor major minor, capabilities = caps\<rparr>
       (afterCall s (getCall (bareController cl) ''version'' [] Map.empty)) = (r, s2)"
    by fastforce
  have "r = None"
    using assms(4) by (simp add: cc)
  then show ?thesis
    using assms(1,2) by (simp add: rd cc)
qed

section \<open>Schema coercion of the version document\<close>

text \<open>
  C6. When the version request is answered and its body decodes, the coercion of the
  decoded value fails, and \<^verbatim>\<open>readAPIVersion\<close> returns an error of the
  deserialization Kind, whenever the value has no \<^verbatim>\<open>capabilities\<close> field (also
  when it is no map at all) or that field is a list with an element that is not a
  string. No default stands in for the missing field.
\<close>

theorem version_document_coercion:
  assumes "getAnswer E c ''version'' [] Map.empty s = Inr bs"
    and "Unmarshal E bs = Inr doc"
    and "field doc ''capabilities'' = None \<or>
         (\<exists>xs. field doc ''capabilities'' = Some (JArray xs) \<and> (\<exists>x\<in>set xs. \<not> isString x))"
  shows "isl (schema_FieldMap [(''capabilities'', schema_List schema_String)] doc) \<and>
         resultKind (errOf (fst (readAPIVersion E c ver s))) = Some Deserialization"
proof -
  have "isl (schema_FieldMap [(''capabilities'', schema_List schema_String)] doc)"
    using assms(3) coerce_version_missing coerce_version_nonstring by blast
  then show ?thesis
    using assms(1,2)
    by (auto simp: readAPIVersion_eq resultKind_def errOf_def kindOf_def
        WrapWithDeserializationError_def split: sum.splits)
qed

theorem version_document_coercion_witness:
  "resultKind (errOf (fst (readAPIVersion (demoServer (\<lambda>v. ''user'') 200) demoController
      (majorMinor 2 0) initialState))) = Some Deserialization \<and>
   resultKind (errOf (fst (readAPIVersion (demoServer (\<lambda>v. ''malformed'') 200) demoController
      (majorMinor 2 0) initialState))) = Some Deserialization"
proof -
  have a: "field (JObject [(''username'', JString ''admin'')]) ''capabilities'' = None"
    by (simp add: field_def)
  have b: "field (JObject [(''capabilities'', JArray [JString ''networks-management'', JNumber 1])])
             ''capabilities'' = Some (JArray [JString ''networks-management'', JNumber 1])"
    by (simp add: field_def)
  have c: "\<exists>x\<in>set [JString ''networks-management'', JNumber 1]. \<not> isString x"
    by (simp add: isString_def)
  have 1: "resultKind (errOf (fst (readAPIVersion (demoServer (\<lambda>v. ''user'') 200) demoController
      (majorMinor 2 0) initialState))) = Some Deserialization"
    using version_document_coercion [where E = "demoServer (\<lambda>v. ''user'') 200"
        and c = demoController and s = initialState and bs = "''user''"
        and doc = "JObject [(''username'', JString ''admin'')]" and ver = "majorMinor 2 0"] a
    by (simp add: demoServer_version demoServer_Unmarshal demoDecode_def)
  have 2: "resultKind (errOf (fst (readAPIVersion (demoServer (\<lambda>v. ''malformed'') 200) demoController
      (majorMinor 2 0) initialState))) = Some Deserialization"
    using version_document_coercion [where E = "demoServer (\<lambda>v. ''malformed'') 200"
        and c = demoController and s = initialState and bs = "''malformed''"
        and doc = "JObject [(''capabilities'', JArray [JString ''networks-management'', JNumber 1])]"
        and ver = "majorMinor 2 0"] b c
    by (simp add: demoServer_version demoServer_Unmarshal demoDecode_def)
  show ?thesis using 1 2 by simp
qed

section \<open>Version negotiation\<close>

text \<open>
  C5. When negotiation succeeds on candidate 2.0, that is the client is built, the
  version document decodes to a value whose \<^verbatim>\<open>capabilities\<close> field is a list of
  strings, and the identity check is answered with a body that decodes,
  \<^verbatim>\<open>NewController\<close> returns a controller whose version is major 2, minor 0 (the
  other fields zero) and whose capability set is exactly the set of the strings of
  that list.
\<close>

theorem negotiated_version_and_capabilities:
  assumes "NewAuthenticatedClient E (BaseURL args) (APIKey args) ''2.0'' = Inr cl"
    and "getAnswer E (bareController cl) ''version'' [] Map.empty s = Inr bs"
    and "Unmarshal E bs = Inr doc"
    and "field doc ''capabilities'' = Some (JArray (map JString caps))"
    and "getAnswer E \<lparr>client = cl, apiVersion = majorMinor 2 0, capabilities = set caps\<rparr>
           ''users'' ''whoami'' Map.empty
           (afterCall s (getCall (bareController cl) ''version'' [] Map.empty)) = Inr bs'"
    and "Unmarshal E bs' = Inr who"
  shows "fst (NewController E args s) =
           Inr \<lparr>client = cl,
                apiVersion = \<lparr>Major = 2, Minor = 0, Tag = [], Patch = 0, Build = 0\<rparr>,
                capabilities = set caps\<rparr>"
proof -
  have rd: "fst (readAPIVersion E (bareController cl) (majorMinor 2 0) s) =
      Inr (set caps, majorMinor 2 0)"
    using assms(2,3) coerce_version_ok [OF assms(4)] by (simp add: readAPIVersion_eq)
  have cc: "fst (checkCreds E \<lparr>client = cl, apiVersion = majorMinor 2 0, capabilities = set caps\<rparr>
      (afterCall s (getCall (bareController cl) ''version'' [] Map.empty))) = None"
    using assms(5,6) by (simp add: checkCreds_def getOp_def u_get_eq)
  show ?thesis
    using negotiate_success [OF ParseMajorMinor_2_0 assms(1) rd cc, of "[''2.0'']" "[]"]
    by (simp add: NewController_def NewControllerFrom_def supportedAPIVersions_def majorMinor_def
        del: negotiate.simps)
qed

theorem negotiated_version_and_capabilities_witness:
  "fst (NewController (demoServer (\<lambda>v. ''caps'') 200) demoArgs initialState) =
     Inr \<lparr>client = demoClient ''2.0'',
          apiVersion = \<lparr>Major = 2, Minor = 0, Tag = [], Patch = 0, Build = 0\<rparr>,
          capabilities = {''networks-management'', ''static-ipaddresses''}\<rparr>"
proof -
  let ?E = "demoServer (\<lambda>v. ''caps'') 200"
  have f: "field (JObject [(''capabilities'',
               JArray [JString ''networks-management'', JString ''static-ipaddresses''])])
      ''capabilities'' = Some (JArray (map JString [''networks-management'', ''static-ipaddresses'']))"
    by (simp add: field_def)
  have d1: "Unmarshal ?E ''caps'' = Inr (JObject [(''capabilities'',
               JArray [JString ''networks-management'', JString ''static-ipaddresses''])])"
    by (simp add: demoServer_Unmarshal demoDecode_def)
  have d2: "Unmarshal ?E ''user'' = Inr (JObject [(''username'', JString ''admin'')])"
    by (simp add: demoServer_Unmarshal demoDecode_def)
  have v: "getAnswer ?E (bareController (demoClient ''2.0'')) ''version'' [] Map.empty initialState
      = Inr ''caps''"
    by (simp add: demoServer_version)
  have w: "getAnswer ?E \<lparr>client = demoClient ''2.0'', apiVersion = majorMinor 2 0,
        capabilities = set [''networks-management'', ''static-ipaddresses'']\<rparr>
      ''users'' ''whoami'' Map.empty
      (afterCall initialState (getCall (bareController (demoClient ''2.0'')) ''version'' [] Map.empty))
      = Inr ''user''"
    by (simp add: demoServer_whoami)
  show ?thesis
    using negotiated_version_and_capabilities [OF demoServer_client v d1 f w d2]
    by simp
qed

text \<open>
  C3. When the loop arrives at a candidate whose version document is read and whose
  identity check the transport refuses with status 401, negotiation ends there with
  an error of Kind permission-denied, whatever candidates remain: the only requests
  sent from that point are the candidate's own version request and identity check.
\<close>

theorem identity_check_401_stops:
  assumes "ParseMajorMinor v = Inr (major, minor)"
    and "NewAuthenticatedClient E (BaseURL args) (APIKey args) v = Inr cl"
    and "fst (readAPIVersion E (bareController cl) (majorMinor major minor) s) = Inr (caps, ver)"
    and "getAnswer E \<lparr>client = cl, apiVersion = ver, capabilities = caps\<rparr> ''users'' ''whoami''
           Map.empty (afterCall s (getCall (bareController cl) ''version'' [] Map.empty)) = Inl err"
    and "Cause err = ServerError msg 401 body"
  shows "fst (negotiate E args allVersions (v # rest) s) =
           Inl (Trace (Wrap (Trace (Trace err)) (NewPermissionError body))) \<and>
         resultKind (errOf (fst (negotiate E args allVersions (v # rest) s))) = Some PermissionDenied \<and>
         history (snd (negotiate E args allVersions (v # rest) s)) =
           history s @ [GetCall cl ''version/'' [] Map.empty, GetCall cl ''users/'' ''whoami'' Map.empty]"
proof -
  let ?s1 = "afterCall s (getCall (bareController cl) ''version'' [] Map.empty)"
  let ?c = "\<lparr>client = cl, apiVersion = ver, capabilities = caps\<rparr>"
  have rd: "readAPIVersion E (bareController cl) (majorMinor major minor) s = (Inr (caps, ver), ?s1)"
    using assms(3) readAPIVersion_state [of E "bareController cl" "majorMinor major minor" s]
    by (simp add: prod_eq_iff)
  have cc: "checkCreds E ?c ?s1 =
      (Some (Wrap (Trace (Trace err)) (NewPermissionError body)),
       afterCall ?s1 (getCall ?c ''users'' ''whoami'' Map.empty))"
    using assms(4,5) by (simp add: checkCreds_def getOp_def u_get_eq)
  have n: "negotiate E args allVersions (v # rest) s =
      (Inl (Trace (Wrap (Trace (Trace err)) (NewPermissionError body))),
       afterCall ?s1 (getCall ?c ''users'' ''whoami'' Map.empty))"
    using assms(1,2) by (simp add: rd cc)
  show ?thesis
    unfolding n
    by (simp add: resultKind_def errOf_def kindOf_def NewPermissionError_def history_afterCall
        getCall_def bareController_def EnsureTrailingSlash_simps)
qed

theorem identity_check_401_stops_witness:
  "resultKind (errOf (fst (NewControllerFrom (demoServer (\<lambda>v. ''caps'') 401) [''2.0'', ''1.0'']
      demoArgs initialState))) = Some PermissionDenied \<and>
   history (snd (NewControllerFrom (demoServer (\<lambda>v. ''caps'') 401) [''2.0'', ''1.0'']
      demoArgs initialState)) =
     [GetCall (demoClient ''2.0'') ''version/'' [] Map.empty,
      GetCall (demoClient ''2.0'') ''users/'' ''whoami'' Map.empty]"
proof -
  let ?E = "demoServer (\<lambda>v. ''caps'') 401"
  have cl: "NewAuthenticatedClient ?E (BaseURL demoArgs) (APIKey demoArgs) ''2.0'' =
      Inr (demoClient ''2.0'')"
    by (simp add: NewAuthenticatedClient_def demoServer_def demoArgs_def demoClient_def)
  have rd: "fst (readAPIVersion ?E (bareController (demoClient ''2.0'')) (majorMinor 2 0) initialState)
      = Inr ({''networks-management'', ''static-ipaddresses''}, majorMinor 2 0)"
    by (simp add: readAPIVersion_eq demoServer_version demoServer_Unmarshal demoDecode_def
        schema_FieldMap_def schema_List_def schema_String_def)
  have who: "getAnswer ?E \<lparr>client = demoClient ''2.0'', apiVersion = majorMinor 2 0,
        capabilities = {''networks-management'', ''static-ipaddresses''}\<rparr> ''users'' ''whoami''
      Map.empty (afterCall initialState (getCall (bareController (demoClient ''2.0'')) ''version'' []
        Map.empty)) = Inl (ServerError ''ServerError'' 401 ''Invalid credentials'')"
    by (simp add: demoServer_whoami)
  have ca: "Cause (ServerError ''ServerError'' 401 ''Invalid credentials'') =
      ServerError ''ServerError'' 401 ''Invalid credentials''"
    by simp
  show ?thesis
    using identity_check_401_stops [OF ParseMajorMinor_2_0 cl rd who ca,
        of "[''2.0'', ''1.0'']" "[''1.0'']", THEN conjunct2]
    by (simp add: NewControllerFrom_def history_def initialState_def del: negotiate.simps)
qed



lemma path_Split_dir: "fst (path_Split p) \<noteq> [] \<longleftrightarrow> CHR ''/'' \<in> set p"
  by (auto simp: path_Split_def dropWhile_eq_Nil_conv)

lemma Validate_kind: "Validate a = Some e \<Longrightarrow> kindOf e = Some NotValid"
  by (auto simp: Validate_def kindOf_simps split: prod.splits if_splits)

lemma Validate_None_iff:
  "Validate a = None \<longleftrightarrow>
     Filename a \<noteq> [] \<and> CHR ''/'' \<notin> set (Filename a) \<and>
     ((Content a \<noteq> None \<and> Reader a = None \<and> Length a = 0) \<or>
      (Content a = None \<and> Reader a \<noteq> None \<and> Length a \<noteq> 0))"
  using path_Split_dir [of "Filename a"]
  by (auto simp: Validate_def split: prod.splits if_splits)

text \<open>After a successful validation \<^verbatim>\<open>AddFile\<close> never reads a \<^verbatim>\<open>nil\<close> reader.\<close>

lemma fileContentOf_no_panic:
  "Validate a = None \<Longrightarrow> fileContentOf a \<noteq> Inl (OtherError ''panic: nil Reader'')"
  by (auto simp: Validate_None_iff fileContentOf_def split: option.splits sum.splits)

lemma lastUpload_afterCall:
  "lastUpload (afterCall s (postCall c path oper params files)) = files ''file''"
  by (simp add: lastUpload_def afterCall_def postCall_def)

lemma AddFile_state:
  "Validate a = None \<Longrightarrow> fileContentOf a = Inr content \<Longrightarrow>
   snd (AddFile E c a s) =
     afterCall s (postCall c ''files'' ''create'' [''filename'' \<mapsto> [Filename a]] [''file'' \<mapsto> content])"
  by (simp add: AddFile_def postFile_eq split: sum.splits error.splits)

lemma AddFile_ok:
  "Validate a = None \<Longrightarrow> fileContentOf a = Inr content \<Longrightarrow>
   postAnswer E c ''files'' ''create'' [''filename'' \<mapsto> [Filename a]] [''file'' \<mapsto> content] s = Inr bs \<Longrightarrow>
   fst (AddFile E c a s) = None"
  by (simp add: AddFile_def postFile_eq)

section \<open>File upload\<close>

text \<open>
  C9. \<^verbatim>\<open>Validate\<close> returns \<^verbatim>\<open>nil\<close> exactly when the filename is not empty and has
  no slash, and exactly one of the two content forms is given: a content that is not
  \<^verbatim>\<open>nil\<close> with no reader and length zero, or no content with a reader and a length
  other than zero. Every other combination yields an error of Kind not-valid, and
  then \<^verbatim>\<open>AddFile\<close> returns that error (traced) and leaves the state as it was: no
  request is sent and no identifier is issued.
\<close>

theorem Validate_exactly_one_form:
  "(Validate a = None \<longleftrightarrow>
      Filename a \<noteq> [] \<and> CHR ''/'' \<notin> set (Filename a) \<and>
      ((Content a \<noteq> None \<and> Reader a = None \<and> Length a = 0) \<or>
       (Content a = None \<and> Reader a \<noteq> None \<and> Length a \<noteq> 0))) \<and>
   (Validate a \<noteq> None \<longrightarrow>
      resultKind (Validate a) = Some NotValid \<and>
      resultKind (fst (AddFile E c a s)) = Some NotValid \<and>
      snd (AddFile E c a s) = s)"
  using Validate_None_iff [of a]
  by (auto simp: resultKind_def AddFile_def kindOf_simps dest: Validate_kind)

theorem Validate_exactly_one_form_witness:
  "Validate demoUpload = None \<and>
   Validate slashUpload \<noteq> None \<and>
   resultKind (fst (AddFile (demoServer (\<lambda>v. ''caps'') 200) demoController slashUpload initialState))
     = Some NotValid \<and>
   snd (AddFile (demoServer (\<lambda>v. ''caps'') 200) demoController slashUpload initialState)
     = initialState"
proof -
  have 1: "Validate slashUpload \<noteq> None"
    by (simp add: Validate_def slashUpload_def path_Split_def)
  show ?thesis
    using Validate_exactly_one_form [of slashUpload "demoServer (\<lambda>v. ''caps'') 200" demoController
        initialState] 1 Validate_demoUpload
    by simp
qed

lemma sint_succ:
  assumes "sint (w :: 64 word) < 2 ^ 63 - 1"
  shows "sint (w + 1) = sint w + 1"
proof -
  have "- (2 ^ 63) \<le> sint w"
    using sint_ge [of w] by simp
  then show ?thesis
    using assms by (simp add: sint_word_ariths signed_take_bit_int_eq_self_iff)
qed

lemma invoke_eq: "invoke E i s = afterCall s (callOf i)"
  by (cases i) (simp_all add: u_getRaw_eq u_postRaw_eq delete_eq)

lemma invoke_issued: "issued (invoke E i s) = issued s @ [fst (nextRequestID s)]"
  by (simp add: invoke_eq issued_afterCall nextRequestID_def)

lemma invoke_requestNumber: "requestNumber (invoke E i s) = requestNumber s + 1"
  by (simp add: invoke_eq requestNumber_afterCall)

lemma wellSequenced_invoke:
  assumes "wellSequenced s" and "sint (requestNumber s) < 2 ^ 63 - 1"
  shows "wellSequenced (invoke E i s)"
proof -
  have n: "sint (requestNumber s + 1) = sint (requestNumber s) + 1"
    using assms(2) by (rule sint_succ)
  show ?thesis
    using assms(1)
    by (auto simp: wellSequenced_def invoke_issued invoke_requestNumber nextRequestID_def n
        sorted_wrt_append list_all_iff)
qed

lemma run_Cons: "run E (i # invs) s = run E invs (invoke E i s)"
  by (simp add: run_def)

lemma run_Nil: "run E [] s = s"
  by (simp add: run_def)

lemma wellSequenced_run:
  "wellSequenced s \<Longrightarrow> sint (requestNumber s) + int (length invs) < 2 ^ 63 \<Longrightarrow>
   wellSequenced (run E invs s)"
proof (induction invs arbitrary: s)
  case Nil
  then show ?case by (simp add: run_Nil)
next
  case (Cons i invs)
  have lt: "sint (requestNumber s) < 2 ^ 63 - 1"
    using Cons.prems(2) by simp
  have "sint (requestNumber (invoke E i s)) = sint (requestNumber s) + 1"
    using lt by (simp add: invoke_requestNumber sint_succ)
  then have "sint (requestNumber (invoke E i s)) + int (length invs) < 2 ^ 63"
    using Cons.prems(2) by simp
  then show ?case
    using Cons.IH [OF wellSequenced_invoke [OF Cons.prems(1) lt]] by (simp add: run_Cons)
qed

lemma length_issued_run: "length (issued (run E invs s)) = length (issued s) + length invs"
  by (induction invs arbitrary: s) (simp_all add: run_Nil run_Cons invoke_issued)

lemma issued_run_demo:
  "issued (run E demoInvocations s) = issued s @ [requestNumber s + 1, requestNumber s + 2, requestNumber s + 3]"
  by (simp add: demoInvocations_def run_def invoke_eq issued_afterCall requestNumber_afterCall)

lemma AddFile_read_error:
  "Validate a = None \<Longrightarrow> fileContentOf a = Inl err \<Longrightarrow> AddFile E c a s = (Some err, s)"
  by (simp add: AddFile_def)

lemma ReadAllLimit_cases:
  "ReadAllLimit r n =
     (if endMet r n then (case failure r of Some err \<Rightarrow> Inl err | None \<Rightarrow> Inr (rdata r))
      else if 0 < sint n then Inr (take (nat (sint n)) (rdata r)) else Inr [])"
  by (auto simp: ReadAllLimit_def endMet_def)

text \<open>
  C10, as stated, fails for a negative length: \<^verbatim>\<open>Validate\<close> only refuses the
  length zero, the limited reader is at its end at once, and the content posted is
  empty, which is more than \<open>-1\<close> bytes.
\<close>

theorem upload_negative_length_counterexample:
  "(case lastUpload (snd (AddFile (demoServer (\<lambda>v. ''caps'') 200) demoController negativeUpload
       initialState)) of
      Some content \<Rightarrow> \<not> int (length content) \<le> sint (Length negativeUpload)
    | None \<Rightarrow> False)"
proof -
  have v: "Validate negativeUpload = None"
    by (simp add: Validate_def negativeUpload_def path_Split_def)
  have f: "fileContentOf negativeUpload = Inr []"
    by (simp add: fileContentOf_def negativeUpload_def ReadAllLimit_def)
  have "lastUpload (snd (AddFile (demoServer (\<lambda>v. ''caps'') 200) demoController negativeUpload
      initialState)) = Some []"
    by (simp add: AddFile_state [OF v f] lastUpload_afterCall)
  moreover have "\<not> int (length ([] :: bytes)) \<le> sint (Length negativeUpload)"
    by (simp add: negativeUpload_def)
  ultimately show ?thesis
    by simp
qed

text \<open>
  C10, amended. For an \<^verbatim>\<open>AddFile\<close> call that passes validation with a reader and
  a length (no content). With a positive length, when the reader ends with
  \<^verbatim>\<open>io.EOF\<close> or its error is not met by the read (it has more than \<open>Length\<close> bytes,
  or exactly \<open>Length\<close> and reports the error with a later \<^verbatim>\<open>Read\<close>), the content
  posted is the first \<open>Length\<close> bytes of the reader, all of them when it has fewer, so
  at most \<open>Length\<close> bytes, and the read causes no error: the call returns \<^verbatim>\<open>nil\<close>
  when the transport accepts the request. With a negative length the content posted
  is empty. When the reader's error is met (it comes after fewer than \<open>Length\<close> bytes,
  or together with the last of exactly \<open>Length\<close> bytes) \<^verbatim>\<open>AddFile\<close> returns that
  error annotated and sends no request.
\<close>

theorem upload_from_reader:
  assumes "Validate a = None" and "Content a = None" and "Reader a = Some r"
  shows
    "(0 < sint (Length a) \<longrightarrow> failure r = None \<or> \<not> endMet r (Length a) \<longrightarrow>
        lastUpload (snd (AddFile E c a s)) = Some (take (nat (sint (Length a))) (rdata r)) \<and>
        int (length (take (nat (sint (Length a))) (rdata r))) \<le> sint (Length a) \<and>
        (length (rdata r) \<le> nat (sint (Length a)) \<longrightarrow>
           lastUpload (snd (AddFile E c a s)) = Some (rdata r)) \<and>
        (postAnswer E c ''files'' ''create'' [''filename'' \<mapsto> [Filename a]]
           [''file'' \<mapsto> take (nat (sint (Length a))) (rdata r)] s = Inr bs \<longrightarrow>
         fst (AddFile E c a s) = None)) \<and>
     (sint (Length a) < 0 \<longrightarrow>
        lastUpload (snd (AddFile E c a s)) = Some [] \<and>
        (postAnswer E c ''files'' ''create'' [''filename'' \<mapsto> [Filename a]] [''file'' \<mapsto> []] s
           = Inr bs \<longrightarrow>
         fst (AddFile E c a s) = None)) \<and>
     (failure r = Some e \<longrightarrow> endMet r (Length a) \<longrightarrow>
        AddFile E c a s = (Some (Annotate e ''cannot read file content''), s))"
proof -
  have fc: "fileContentOf a =
      (case ReadAllLimit r (Length a) of
         Inl err \<Rightarrow> Inl (Annotate err ''cannot read file content'')
       | Inr content \<Rightarrow> Inr content)"
    using assms(2,3) by (simp add: fileContentOf_def)
  have pos: "fileContentOf a = Inr (take (nat (sint (Length a))) (rdata r))"
    if "0 < sint (Length a)" "failure r = None \<or> \<not> endMet r (Length a)"
    using that by (auto simp: fc ReadAllLimit_cases endMet_def)
  have neg: "fileContentOf a = Inr []" if "sint (Length a) < 0"
    using that by (simp add: fc ReadAllLimit_def)
  have bad: "fileContentOf a = Inl (Annotate e ''cannot read file content'')"
    if "failure r = Some e" "endMet r (Length a)"
    using that by (simp add: fc ReadAllLimit_cases)
  show ?thesis
    using AddFile_state [OF assms(1) pos, of E c s] AddFile_ok [OF assms(1) pos, of E c s bs]
      AddFile_state [OF assms(1) neg, of E c s] AddFile_ok [OF assms(1) neg, of E c s bs]
      AddFile_read_error [OF assms(1) bad, of E c s]
    by (auto simp: lastUpload_afterCall)
qed

theorem upload_from_reader_witness:
  "lastUpload (snd (AddFile (demoServer (\<lambda>v. ''caps'') 200) demoController demoUpload initialState))
     = Some ''hello'' \<and>
   lastUpload (snd (AddFile (demoServer (\<lambda>v. ''caps'') 200) demoController shortUpload initialState))
     = Some ''hi'' \<and>
   fst (AddFile (demoServer (\<lambda>v. ''caps'') 200) demoController shortUpload initialState) = None \<and>
   lastUpload (snd (AddFile (demoServer (\<lambda>v. ''caps'') 200) demoController lateUpload initialState))
     = Some ''hello'' \<and>
   lastUpload (snd (AddFile (demoServer (\<lambda>v. ''caps'') 200) demoController negativeUpload
     initialState)) = Some [] \<and>
   AddFile (demoServer (\<lambda>v. ''caps'') 200) demoController brokenUpload initialState =
     (Some (Annotate (OtherError ''unexpected EOF'') ''cannot read file content''), initialState) \<and>
   AddFile (demoServer (\<lambda>v. ''caps'') 200) demoController eagerUpload initialState =
     (Some (Annotate (OtherError ''connection reset'') ''cannot read file content''), initialState)"
proof -
  let ?E = "demoServer (\<lambda>v. ''caps'') 200"
  have v: "Validate shortUpload = None" "Validate negativeUpload = None"
    "Validate lateUpload = None" "Validate brokenUpload = None" "Validate eagerUpload = None"
    by (simp_all add: Validate_def shortUpload_def negativeUpload_def lateUpload_def
        brokenUpload_def eagerUpload_def path_Split_def)
  have p: "postAnswer ?E c path oper params files s = Inr ''null''" for c path oper params files s
    by (simp add: postAnswer_def demoServer_def)
  have 1: "lastUpload (snd (AddFile ?E demoController demoUpload initialState)) = Some ''hello''"
    using upload_from_reader [OF Validate_demoUpload,
        of "\<lparr>rdata = ''hello world'', failure = None, eager = False\<rparr>"
        ?E demoController initialState "''null''" "OtherError []"]
    by (simp add: demoUpload_def endMet_def)
  have 2: "lastUpload (snd (AddFile ?E demoController shortUpload initialState)) = Some ''hi'' \<and>
      fst (AddFile ?E demoController shortUpload initialState) = None"
    using upload_from_reader [OF v(1), of "\<lparr>rdata = ''hi'', failure = None, eager = False\<rparr>"
        ?E demoController initialState "''null''" "OtherError []"]
    by (simp add: shortUpload_def p endMet_def)
  have 3: "lastUpload (snd (AddFile ?E demoController negativeUpload initialState)) = Some []"
    using upload_from_reader [OF v(2),
        of "\<lparr>rdata = ''hello world'', failure = None, eager = False\<rparr>"
        ?E demoController initialState "''null''" "OtherError []"]
    by (simp add: negativeUpload_def endMet_def)
  have 4: "lastUpload (snd (AddFile ?E demoController lateUpload initialState)) = Some ''hello''"
    using upload_from_reader [OF v(3),
        of "\<lparr>rdata = ''hello world'', failure = Some (OtherError ''connection reset''),
             eager = True\<rparr>"
        ?E demoController initialState "''null''" "OtherError ''connection reset''"]
    by (simp add: lateUpload_def endMet_def)
  have 5: "AddFile ?E demoController brokenUpload initialState =
     (Some (Annotate (OtherError ''unexpected EOF'') ''cannot read file content''), initialState)"
    using upload_from_reader [OF v(4),
        of "\<lparr>rdata = ''hi'', failure = Some (OtherError ''unexpected EOF''), eager = False\<rparr>"
        ?E demoController initialState "''null''" "OtherError ''unexpected EOF''"]
    by (simp add: brokenUpload_def endMet_def)
  have 6: "AddFile ?E demoController eagerUpload initialState =
     (Some (Annotate (OtherError ''connection reset'') ''cannot read file content''), initialState)"
    using upload_from_reader [OF v(5),
        of "\<lparr>rdata = ''hello'', failure = Some (OtherError ''connection reset''), eager = True\<rparr>"
        ?E demoController initialState "''null''" "OtherError ''connection reset''"]
    by (simp add: eagerUpload_def endMet_def)
  show ?thesis using 1 2 3 4 5 6 by simp
qed

lemma upt_Suc_shift: "[0..<Suc n] = 0 # map Suc [0..<n]"
  by (metis map_Suc_upt upt_conv_Cons zero_less_Suc)

lemma issued_run:
  "issued (run E invs s) =
     issued s @ map (\<lambda>k. requestNumber s + of_nat (Suc k)) [0..<length invs]"
proof (induction invs arbitrary: s)
  case Nil
  then show ?case by (simp add: run_Nil)
next
  case (Cons i invs)
  have "issued (run E (i # invs) s) =
      (issued s @ [requestNumber s + 1]) @
        map (\<lambda>k. requestNumber s + 1 + of_nat (Suc k)) [0..<length invs]"
    by (simp only: run_Cons Cons.IH invoke_issued invoke_requestNumber nextRequestID_def fst_conv)
  also have "map (\<lambda>k. requestNumber s + 1 + of_nat (Suc k)) [0..<length invs] =
      map (\<lambda>k. requestNumber s + of_nat (Suc k)) (map Suc [0..<length invs])"
    by (simp only: map_map comp_def of_nat_Suc ac_simps)
  finally show ?case
    by (simp add: upt_Suc_shift del: upt_Suc)
qed

lemma requestNumber_run: "requestNumber (run E invs s) = requestNumber s + of_nat (length invs)"
  by (induction invs arbitrary: s) (simp_all add: run_Nil run_Cons invoke_requestNumber)

lemma of_nat_64_inj:
  assumes "i < 2 ^ 64" and "j < 2 ^ 64" and "(of_nat i :: 64 word) = of_nat j"
  shows "i = j"
proof -
  have "take_bit 64 i = take_bit 64 j"
    using assms(3) by (simp add: word_of_nat_eq_iff)
  moreover have "take_bit 64 i = i" "take_bit 64 j = j"
    using assms(1,2) by (simp_all add: take_bit_nat_eq_self)
  ultimately show ?thesis
    by simp
qed

lemma distinct_from_base:
  assumes "n \<le> 2 ^ 64"
  shows "distinct (map (\<lambda>k. (b :: 64 word) + of_nat (Suc k)) [0..<n])"
proof -
  have "inj_on (\<lambda>k. b + of_nat (Suc k)) (set [0..<n])"
  proof (rule inj_onI)
    fix i j
    assume i: "i \<in> set [0..<n]" and j: "j \<in> set [0..<n]"
      and eq: "b + of_nat (Suc i) = b + of_nat (Suc j)"
    have e: "(of_nat i :: 64 word) = of_nat j"
      using eq by simp
    have "i < 2 ^ 64" "j < 2 ^ 64"
      using i j assms by auto
    then show "i = j"
      using e by (rule of_nat_64_inj)
  qed
  then show ?thesis
    by (simp only: distinct_map distinct_upt simp_thms)
qed

lemma consecutive_issued_run:
  assumes "consecutive s"
  shows "issued (run E invs s) =
     map (\<lambda>k. requestNumber s - of_nat (length (issued s)) + of_nat (Suc k))
       [0..<length (issued s) + length invs]"
proof -
  let ?n = "length (issued s)"
  let ?b = "requestNumber s - of_nat ?n"
  have sh: "[?n..<?n + length invs] = map (\<lambda>k. k + ?n) [0..<length invs]"
    using map_add_upt [of ?n "length invs"] by (simp only: add.commute)
  have "map (\<lambda>k. ?b + of_nat (Suc k)) [?n..<?n + length invs] =
      map (\<lambda>k. requestNumber s + of_nat (Suc k)) [0..<length invs]"
    unfolding sh by (simp add: comp_def)
  moreover have "[0..<?n + length invs] = [0..<?n] @ [?n..<?n + length invs]"
    by (rule upt_add_eq_append) simp
  moreover have "issued s = map (\<lambda>k. ?b + of_nat (Suc k)) [0..<?n]"
    using assms by (simp only: consecutive_def)
  ultimately show ?thesis
    by (simp only: issued_run map_append) 
qed

lemma consecutive_run: "consecutive s \<Longrightarrow> consecutive (run E invs s)"
  using consecutive_issued_run [of s E invs]
  by (simp add: consecutive_def requestNumber_run length_issued_run)

lemma consecutive_distinct:
  assumes "consecutive s" and "length (issued s) + length invs \<le> 2 ^ 64"
  shows "distinct (issued (run E invs s))"
  unfolding consecutive_issued_run [OF assms(1)]
  using assms(2) by (rule distinct_from_base)

lemma issued_run_initial:
  "issued (run E invs initialState) = map (\<lambda>k. of_nat (Suc k)) [0..<length invs]"
  unfolding issued_run by (simp add: issued_def initialState_def)

section \<open>Request identifiers\<close>

text \<open>
  C8, as stated, fails when the 64-bit counter wraps around. From the initial state
  (counter zero, nothing issued), the identifiers of \<open>2^63\<close> invocations do not
  increase: the last is \<open>-2^63\<close>, after \<open>2^63 - 1\<close>. And the identifiers of
  \<open>2^64 + 1\<close> invocations are not distinct: the last is \<open>1\<close> again.
\<close>

theorem request_ids_wrap_counterexample:
  "\<not> sorted_wrt (\<lambda>a b. sint a < sint b)
       (issued (run (demoServer (\<lambda>v. ''caps'') 200) (replicate (2 ^ 63) oneDelete) initialState)) \<and>
   \<not> distinct
       (issued (run (demoServer (\<lambda>v. ''caps'') 200) (replicate (2 ^ 64 + 1) oneDelete) initialState))"
proof
  let ?f = "\<lambda>k. (of_nat (Suc k) :: 64 word)"
  show "\<not> sorted_wrt (\<lambda>a b. sint a < sint b)
       (issued (run (demoServer (\<lambda>v. ''caps'') 200) (replicate (2 ^ 63) oneDelete) initialState))"
  proof
    assume "sorted_wrt (\<lambda>a b. sint a < sint b)
       (issued (run (demoServer (\<lambda>v. ''caps'') 200) (replicate (2 ^ 63) oneDelete) initialState))"
    then have "sorted_wrt (\<lambda>a b. sint a < sint b) (map ?f [0..<2 ^ 63])"
      by (simp only: issued_run_initial length_replicate)
    then have "sint (map ?f [0..<2 ^ 63] ! 9223372036854775806)
        < sint (map ?f [0..<2 ^ 63] ! 9223372036854775807)"
      by (rule sorted_wrt_nth_less) simp_all
    moreover have "map ?f [0..<2 ^ 63] ! 9223372036854775806 = 9223372036854775807"
      by (subst nth_map) simp_all
    moreover have "map ?f [0..<2 ^ 63] ! 9223372036854775807 = 9223372036854775808"
      by (subst nth_map) simp_all
    ultimately show False
      by simp
  qed
  show "\<not> distinct
       (issued (run (demoServer (\<lambda>v. ''caps'') 200) (replicate (2 ^ 64 + 1) oneDelete) initialState))"
  proof
    assume "distinct
       (issued (run (demoServer (\<lambda>v. ''caps'') 200) (replicate (2 ^ 64 + 1) oneDelete) initialState))"
    then have "distinct (map ?f [0..<2 ^ 64 + 1])"
      by (simp only: issued_run_initial length_replicate)
    then have "(map ?f [0..<2 ^ 64 + 1] ! 0 = map ?f [0..<2 ^ 64 + 1] ! 18446744073709551616)
        = ((0 :: nat) = 18446744073709551616)"
      by (rule nth_eq_iff_index_eq) simp_all
    moreover have "map ?f [0..<2 ^ 64 + 1] ! 0 = 1"
      by (subst nth_map) simp_all
    moreover have "map ?f [0..<2 ^ 64 + 1] ! 18446744073709551616 = 1"
      by (subst nth_map) simp_all
    ultimately show False
      by simp
  qed
qed


text \<open>
  C8, amended. Every primitive invocation (GET, POST, DELETE) records the identifier
  \<^verbatim>\<open>nextRequestID\<close> returns, one per invocation. The identifiers handed out are
  pairwise distinct, none being issued twice, as long as no more than \<open>2^64\<close> have
  been issued in all; and they increase strictly as long as the counter does not
  overflow (the counter plus the number of invocations stays below \<open>2^63\<close>). The two
  conditions on the state, \<open>consecutive\<close> and \<open>wellSequenced\<close>, hold in the initial
  state and after every run from it within these bounds.
\<close>

theorem request_ids_distinct_and_increasing:
  "issued (invoke E i s) = issued s @ [fst (nextRequestID s)] \<and>
   length (issued (run E invs s)) = length (issued s) + length invs \<and>
   (consecutive s \<longrightarrow> length (issued s) + length invs \<le> 2 ^ 64 \<longrightarrow>
      distinct (issued (run E invs s))) \<and>
   (wellSequenced s \<longrightarrow> sint (requestNumber s) + int (length invs) < 2 ^ 63 \<longrightarrow>
      sorted_wrt (\<lambda>a b. sint a < sint b) (issued (run E invs s)))"
proof -
  have "sorted_wrt (\<lambda>a b. sint a < sint b) (issued (run E invs s))"
    if "wellSequenced s" "sint (requestNumber s) + int (length invs) < 2 ^ 63"
    using wellSequenced_run [OF that] by (simp add: wellSequenced_def)
  then show ?thesis
    using consecutive_distinct [of s invs E]
    by (simp add: invoke_issued length_issued_run)
qed

theorem request_ids_distinct_and_increasing_witness:
  "consecutive initialState \<and> wellSequenced initialState \<and>
   issued (run (demoServer (\<lambda>v. ''caps'') 200) demoInvocations initialState) = [1, 2, 3] \<and>
   distinct (issued (run (demoServer (\<lambda>v. ''caps'') 200) demoInvocations initialState)) \<and>
   sorted_wrt (\<lambda>a b. sint a < sint b)
     (issued (run (demoServer (\<lambda>v. ''caps'') 200) demoInvocations initialState))"
proof -
  have c: "consecutive initialState"
    by (simp add: consecutive_def initialState_def issued_def)
  have w: "wellSequenced initialState"
    by (simp add: wellSequenced_def initialState_def issued_def)
  have l: "length (issued initialState) + length demoInvocations \<le> 2 ^ 64"
    by (simp add: initialState_def issued_def demoInvocations_def)
  have b: "sint (requestNumber initialState) + int (length demoInvocations) < 2 ^ 63"
    by (simp add: initialState_def demoInvocations_def)
  have i: "issued (run (demoServer (\<lambda>v. ''caps'') 200) demoInvocations initialState) = [1, 2, 3]"
    by (simp add: issued_run_demo) (simp add: issued_def initialState_def)
  show ?thesis
    using request_ids_distinct_and_increasing [of "demoServer (\<lambda>v. ''caps'') 200"
        "DoDelete demoController ''devices/4y3h7n''" initialState demoInvocations] c w l b i
    by simp
qed















section \<open>How errors are constructed\<close>





end
